theory Spec2Isabelle
  imports Main "HOL-Library.Char_ord" "HOL-Library.List_Lexorder" "HOL-Library.AList"
begin

section \<open>JavaScript values and string helpers\<close>

text \<open>
  \<open>String.prototype.startsWith\<close> and \<open>String.prototype.includes\<close> (here
  \<open>includes_str\<close>), on strings as character lists.
\<close>

fun startsWith :: "string \<Rightarrow> string \<Rightarrow> bool" where
  "startsWith s [] = True"
| "startsWith [] (c # cs) = False"
| "startsWith (x # xs) (c # cs) = (x = c \<and> startsWith xs cs)"

fun includes_str :: "string \<Rightarrow> string \<Rightarrow> bool" where
  "includes_str [] p = (p = [])"
| "includes_str (x # xs) p = (startsWith (x # xs) p \<or> includes_str xs p)"

text \<open>
  The values a mutation payload (\<open>Record<string, any>\<close>) can hold. Numbers are the
  integers the shop stores (quantities, amounts); the sync engine only copies them.
\<close>

datatype jsval =
    JUndefined
  | JNull
  | JBool bool
  | JNum int
  | JStr string
  | JObj "(string \<times> jsval) list"

type_synonym payload = "(string \<times> jsval) list"

section \<open>Data model (db.ts, supabase.ts)\<close>

datatype MutationTable = products | sales | notifications | settings | images

datatype MutationOperation = INSERT | UPDATE | DELETE

datatype MutationStatus = pending | synced | failed

datatype NotificationType = low_stock | weekly_report | monthly_report | info

text \<open>
  Rows of the remote collections, as \<open>select('*')\<close> returns them. Timestamps that the
  backend writes are opaque strings. A \<open>null\<close> column is \<open>None\<close>.
\<close>

record Product =
  prod_id :: string
  prod_name :: string
  prod_category :: string
  prod_buying_price :: int
  prod_selling_price :: int
  prod_quantity :: int
  prod_low_stock_level :: int
  prod_image_url :: string
  prod_created_at :: string
  prod_updated_at :: string

record Sale =
  sale_id :: string
  sale_product_id :: "string option"
  sale_product_name :: string
  sale_quantity_sold :: int
  sale_unit_price :: int
  sale_total_price :: int
  sale_sale_date :: string
  sale_created_at :: string

record Notification =
  notif_id :: string
  notif_type :: NotificationType
  notif_message :: string
  notif_product_id :: "string option"
  notif_cleared :: bool
  notif_created_at :: string

record Setting =
  setting_id :: string
  setting_key :: string
  setting_value :: jsval
  setting_created_at :: string
  setting_updated_at :: string

text \<open>
  Rows of the local Dexie tables. An optional field (\<open>f?:\<close>) is an option.
  \<open>lastSyncedAt\<close> only ever receives \<open>new Date().toISOString()\<close>; the model keeps the
  instant that was read (milliseconds since the epoch), of which the ISO string is an
  injective rendering.
\<close>

record LocalProduct =
  lp_id :: string
  lp_name :: string
  lp_category :: string
  lp_buying_price :: int
  lp_selling_price :: int
  lp_quantity :: int
  lp_low_stock_level :: int
  lp_image_url :: "string option"
  lp_image_id :: "string option"
  lp_created_at :: string
  lp_updated_at :: string
  lp_synced :: bool
  lp_lastSyncedAt :: "int option"

record LocalSale =
  ls_id :: string
  ls_product_id :: "string option"
  ls_product_name :: string
  ls_quantity_sold :: int
  ls_unit_price :: int
  ls_total_price :: int
  ls_sale_date :: string
  ls_created_at :: string
  ls_synced :: bool
  ls_lastSyncedAt :: "int option"

record LocalNotification =
  ln_id :: string
  ln_type :: NotificationType
  ln_message :: string
  ln_product_id :: "string option"
  ln_created_at :: string
  ln_cleared :: bool
  ln_synced :: bool

record LocalSetting =
  lst_id :: string
  lst_key :: string
  lst_value :: jsval
  lst_created_at :: string
  lst_updated_at :: string
  lst_synced :: bool

record MutationRecord =
  m_id :: string
  m_clientId :: string
  m_table :: MutationTable
  m_operation :: MutationOperation
  m_recordId :: string
  m_payload :: payload
  m_timestamp :: int
  m_status :: MutationStatus
  m_retries :: int
  m_lastError :: "string option"

record SyncMetadata =
  sm_key :: string
  sm_lastSyncedAt :: int
  sm_clientId :: string
  sm_offlineMode :: bool

section \<open>Dexie tables\<close>

text \<open>
  A table is the list of its rows, with a unique primary key (\<open>&id\<close>). \<open>get\<close>,
  \<open>put\<close>, \<open>add\<close>, \<open>update\<close> and \<open>delete\<close> address a row by its key; \<open>add\<close> raises
  ConstraintError (here \<open>None\<close>) when the key is taken; \<open>update\<close> and \<open>delete\<close> of an
  absent key do nothing. The store itself is assumed available.
\<close>

definition tbl_get :: "('a \<Rightarrow> string) \<Rightarrow> 'a list \<Rightarrow> string \<Rightarrow> 'a option" where
  "tbl_get key t k = find (\<lambda>r. key r = k) t"

definition tbl_put :: "('a \<Rightarrow> string) \<Rightarrow> 'a list \<Rightarrow> 'a \<Rightarrow> 'a list" where
  "tbl_put key t r =
     (if key r \<in> set (map key t) then map (\<lambda>x. if key x = key r then r else x) t
      else t @ [r])"

definition tbl_add :: "('a \<Rightarrow> string) \<Rightarrow> 'a list \<Rightarrow> 'a \<Rightarrow> 'a list option" where
  "tbl_add key t r = (if key r \<in> set (map key t) then None else Some (t @ [r]))"

definition tbl_update :: "('a \<Rightarrow> string) \<Rightarrow> 'a list \<Rightarrow> string \<Rightarrow> ('a \<Rightarrow> 'a) \<Rightarrow> 'a list" where
  "tbl_update key t k f = map (\<lambda>x. if key x = k then f x else x) t"

definition tbl_delete :: "('a \<Rightarrow> string) \<Rightarrow> 'a list \<Rightarrow> string \<Rightarrow> 'a list" where
  "tbl_delete key t k = filter (\<lambda>x. key x \<noteq> k) t"

text \<open>
  \<open>table.where(index).equals(v).toArray()\<close> walks the index: the rows whose indexed
  field is \<open>v\<close>, and among equal index keys in primary-key order (strings compare
  lexicographically by code unit).
\<close>

definition where_equals_toArray ::
  "('a \<Rightarrow> string) \<Rightarrow> ('a \<Rightarrow> 'b) \<Rightarrow> 'b \<Rightarrow> 'a list \<Rightarrow> 'a list" where
  "where_equals_toArray key idx v t = sort_key key (filter (\<lambda>r. idx r = v) t)"

definition where_equals_delete :: "('a \<Rightarrow> 'b) \<Rightarrow> 'b \<Rightarrow> 'a list \<Rightarrow> 'a list" where
  "where_equals_delete idx v t = filter (\<lambda>r. idx r \<noteq> v) t"

text \<open>\<open>table.toArray()\<close> lists a table in primary-key order.\<close>

definition tbl_toArray :: "('a \<Rightarrow> string) \<Rightarrow> 'a list \<Rightarrow> 'a list" where
  "tbl_toArray key t = sort_key key t"

section \<open>The world: local store, requests sent, supplies\<close>

text \<open>
  Requests sent to the remote backend through the supabase client.
\<close>

datatype remote_call =
    Select_all MutationTable
  | Select_head MutationTable
  | Insert_row MutationTable payload
  | Update_row MutationTable payload string
  | Delete_row MutationTable string

text \<open>
  The lines \<open>markMutationSynced\<close> and \<open>markMutationFailed\<close> print on the console; no
  other console output is recorded.
\<close>

datatype queue_log = Mutation_synced string | Mutation_failed string int

record world =
  db_products :: "LocalProduct list"
  db_sales :: "LocalSale list"
  db_notifications :: "LocalNotification list"
  db_settings :: "LocalSetting list"
  db_mutations :: "MutationRecord list"
  db_syncMeta :: "SyncMetadata list"
  requests :: "remote_call list"
  uuid_draws :: nat
  clock_reads :: nat
  random_draws :: nat
  queue_console :: "queue_log list"

text \<open>
  What the outside does during one invocation: the clock (\<open>clock k\<close> is the \<open>k\<close>-th
  reading of \<open>Date\<close>, in milliseconds), the UUID generator (\<open>uuidv4 k\<close> is the \<open>k\<close>-th
  UUID drawn), \<open>Math.random().toString(36).substr(2, 9)\<close>, the client id kept in
  localStorage, and the backend's answers. A write or head request is answered given the
  requests sent before it; the four \<open>select('*')\<close> of a pull each get one reply.
  An error object carries its \<open>code\<close>, its \<open>message\<close> and what \<open>String(error)\<close> yields.
  \<open>syncImagesToSupabase\<close> rests on imageManager.ts, which is not among the sources, and
  is taken as given.
\<close>

record pg_error =
  err_code :: "string option"
  err_message :: "string option"
  err_text :: string

datatype 'a select_reply = Select_threw | Select_error pg_error | Select_data "'a list option"

datatype write_reply = Write_threw string | Write_done "pg_error option"

record pull_replies =
  reply_products :: "Product select_reply"
  reply_sales :: "Sale select_reply"
  reply_notifications :: "Notification select_reply"
  reply_settings :: "Setting select_reply"

record env =
  clock :: "nat \<Rightarrow> int"
  uuidv4 :: "nat \<Rightarrow> string"
  random36 :: "nat \<Rightarrow> string"
  mbodze_client_id :: "string option"
  remote :: "remote_call list \<Rightarrow> remote_call \<Rightarrow> write_reply"
  selects :: pull_replies
  syncImagesToSupabase :: "world \<Rightarrow> world"

definition read_clock :: "env \<Rightarrow> world \<Rightarrow> int \<times> world" where
  "read_clock e w = (clock e (clock_reads w), w\<lparr>clock_reads := Suc (clock_reads w)\<rparr>)"

definition draw_uuid :: "env \<Rightarrow> world \<Rightarrow> string \<times> world" where
  "draw_uuid e w = (uuidv4 e (uuid_draws w), w\<lparr>uuid_draws := Suc (uuid_draws w)\<rparr>)"

definition draw_random :: "env \<Rightarrow> world \<Rightarrow> string \<times> world" where
  "draw_random e w = (random36 e (random_draws w), w\<lparr>random_draws := Suc (random_draws w)\<rparr>)"

text \<open>
  \<open>const { error } = await supabase...; if (error) throw error\<close>: the request is
  recorded, and the result is the text of what was thrown, if anything.
\<close>

definition remote_write :: "env \<Rightarrow> remote_call \<Rightarrow> world \<Rightarrow> string option \<times> world" where
  "remote_write e c w =
     (case remote e (requests w) c of
        Write_threw msg \<Rightarrow> (Some msg, w\<lparr>requests := requests w @ [c]\<rparr>)
      | Write_done (Some error) \<Rightarrow> (Some (err_text error), w\<lparr>requests := requests w @ [c]\<rparr>)
      | Write_done None \<Rightarrow> (None, w\<lparr>requests := requests w @ [c]\<rparr>))"

text \<open>
  \<open>error?.code === 'PGRST205' || error?.message?.includes("Could not find the table")\<close>
\<close>

definition relation_not_found :: "pg_error \<Rightarrow> bool" where
  "relation_not_found error =
     (err_code error = Some ''PGRST205'' \<or>
      (case err_message error of None \<Rightarrow> False
       | Some msg \<Rightarrow> includes_str msg ''Could not find the table''))"

section \<open>Mutation queue (offlineQueue.ts)\<close>

definition getPendingMutations :: "world \<Rightarrow> MutationRecord list" where
  "getPendingMutations w = where_equals_toArray m_id m_status pending (db_mutations w)"

definition markMutationSynced :: "string \<Rightarrow> world \<Rightarrow> world" where
  "markMutationSynced mutationId w =
     w\<lparr>db_mutations := tbl_update m_id (db_mutations w) mutationId (\<lambda>m. m\<lparr>m_status := synced\<rparr>),
       queue_console := queue_console w @ [Mutation_synced mutationId]\<rparr>"

definition markMutationFailed :: "string \<Rightarrow> string \<Rightarrow> world \<Rightarrow> world" where
  "markMutationFailed mutationId err w =
     (case tbl_get m_id (db_mutations w) mutationId of
        None \<Rightarrow> w
      | Some mutation \<Rightarrow>
          (let newRetries = m_retries mutation + 1;
               maxRetries = 5;
               st = (if newRetries \<ge> maxRetries then failed else pending)
           in w\<lparr>db_mutations := tbl_update m_id (db_mutations w) mutationId
                    (\<lambda>m. m\<lparr>m_status := st, m_retries := newRetries, m_lastError := Some err\<rparr>),
                 queue_console := queue_console w @ [Mutation_failed mutationId newRetries]\<rparr>))"

definition clearSyncedMutations :: "world \<Rightarrow> world" where
  "clearSyncedMutations w = w\<lparr>db_mutations := where_equals_delete m_status synced (db_mutations w)\<rparr>"

definition retryFailedMutation :: "string \<Rightarrow> world \<Rightarrow> world" where
  "retryFailedMutation mutationId w =
     w\<lparr>db_mutations := tbl_update m_id (db_mutations w) mutationId
          (\<lambda>m. m\<lparr>m_status := pending, m_retries := 0, m_lastError := None\<rparr>)\<rparr>"

section \<open>Pull (sync.ts)\<close>

text \<open>
  Each pull sends one \<open>select('*')\<close>. A thrown request or an error returns false, except
  the relation-not-found error, which returns true; otherwise every remote row is
  \<open>put\<close> into the local table, products and sales stamped with a fresh clock reading.
  \<open>pulled_product\<close> and its siblings are the object literals handed to \<open>put\<close>.
\<close>

definition pulled_product :: "Product \<Rightarrow> int \<Rightarrow> LocalProduct" where
  "pulled_product product now =
     \<lparr>lp_id = prod_id product,
      lp_name = prod_name product,
      lp_category = prod_category product,
      lp_buying_price = prod_buying_price product,
      lp_selling_price = prod_selling_price product,
      lp_quantity = prod_quantity product,
      lp_low_stock_level = prod_low_stock_level product,
      lp_image_url = Some (prod_image_url product),
      lp_image_id = None,
      lp_created_at = prod_created_at product,
      lp_updated_at = prod_updated_at product,
      lp_synced = True,
      lp_lastSyncedAt = Some now\<rparr>"

definition put_product :: "(nat \<Rightarrow> int) \<Rightarrow> LocalProduct list \<times> nat \<Rightarrow> Product \<Rightarrow> LocalProduct list \<times> nat" where
  "put_product clk st product =
     (case st of (t, n) \<Rightarrow> (tbl_put lp_id t (pulled_product product (clk n)), Suc n))"

definition syncProductsFromSupabase ::
  "(nat \<Rightarrow> int) \<Rightarrow> Product select_reply \<Rightarrow> world \<Rightarrow> bool \<times> world" where
  "syncProductsFromSupabase clk reply w0 =
     (let w = w0\<lparr>requests := requests w0 @ [Select_all products]\<rparr>
      in case reply of
           Select_threw \<Rightarrow> (False, w)
         | Select_error error \<Rightarrow> (if relation_not_found error then (True, w) else (False, w))
         | Select_data None \<Rightarrow> (True, w)
         | Select_data (Some rows) \<Rightarrow>
             (case foldl (put_product clk) (db_products w, clock_reads w) rows of
                (t, n) \<Rightarrow> (True, w\<lparr>db_products := t, clock_reads := n\<rparr>)))"

definition pulled_sale :: "Sale \<Rightarrow> int \<Rightarrow> LocalSale" where
  "pulled_sale sale now =
     \<lparr>ls_id = sale_id sale,
      ls_product_id = sale_product_id sale,
      ls_product_name = sale_product_name sale,
      ls_quantity_sold = sale_quantity_sold sale,
      ls_unit_price = sale_unit_price sale,
      ls_total_price = sale_total_price sale,
      ls_sale_date = sale_sale_date sale,
      ls_created_at = sale_created_at sale,
      ls_synced = True,
      ls_lastSyncedAt = Some now\<rparr>"

definition put_sale :: "(nat \<Rightarrow> int) \<Rightarrow> LocalSale list \<times> nat \<Rightarrow> Sale \<Rightarrow> LocalSale list \<times> nat" where
  "put_sale clk st sale =
     (case st of (t, n) \<Rightarrow> (tbl_put ls_id t (pulled_sale sale (clk n)), Suc n))"

definition syncSalesFromSupabase ::
  "(nat \<Rightarrow> int) \<Rightarrow> Sale select_reply \<Rightarrow> world \<Rightarrow> bool \<times> world" where
  "syncSalesFromSupabase clk reply w0 =
     (let w = w0\<lparr>requests := requests w0 @ [Select_all sales]\<rparr>
      in case reply of
           Select_threw \<Rightarrow> (False, w)
         | Select_error error \<Rightarrow> (if relation_not_found error then (True, w) else (False, w))
         | Select_data None \<Rightarrow> (True, w)
         | Select_data (Some rows) \<Rightarrow>
             (case foldl (put_sale clk) (db_sales w, clock_reads w) rows of
                (t, n) \<Rightarrow> (True, w\<lparr>db_sales := t, clock_reads := n\<rparr>)))"

definition pulled_notification :: "Notification \<Rightarrow> LocalNotification" where
  "pulled_notification notification =
     \<lparr>ln_id = notif_id notification,
      ln_type = notif_type notification,
      ln_message = notif_message notification,
      ln_product_id = notif_product_id notification,
      ln_created_at = notif_created_at notification,
      ln_cleared = notif_cleared notification,
      ln_synced = True\<rparr>"

definition put_notification :: "LocalNotification list \<Rightarrow> Notification \<Rightarrow> LocalNotification list" where
  "put_notification t notification = tbl_put ln_id t (pulled_notification notification)"

definition syncNotificationsFromSupabase :: "Notification select_reply \<Rightarrow> world \<Rightarrow> bool \<times> world" where
  "syncNotificationsFromSupabase reply w0 =
     (let w = w0\<lparr>requests := requests w0 @ [Select_all notifications]\<rparr>
      in case reply of
           Select_threw \<Rightarrow> (False, w)
         | Select_error error \<Rightarrow> (if relation_not_found error then (True, w) else (False, w))
         | Select_data None \<Rightarrow> (True, w)
         | Select_data (Some rows) \<Rightarrow>
             (True, w\<lparr>db_notifications := foldl put_notification (db_notifications w) rows\<rparr>))"

definition pulled_setting :: "Setting \<Rightarrow> LocalSetting" where
  "pulled_setting setting =
     \<lparr>lst_id = setting_id setting,
      lst_key = setting_key setting,
      lst_value = setting_value setting,
      lst_created_at = setting_created_at setting,
      lst_updated_at = setting_updated_at setting,
      lst_synced = True\<rparr>"

definition put_setting :: "LocalSetting list \<Rightarrow> Setting \<Rightarrow> LocalSetting list" where
  "put_setting t setting = tbl_put lst_id t (pulled_setting setting)"

definition syncSettingsFromSupabase :: "Setting select_reply \<Rightarrow> world \<Rightarrow> bool \<times> world" where
  "syncSettingsFromSupabase reply w0 =
     (let w = w0\<lparr>requests := requests w0 @ [Select_all settings]\<rparr>
      in case reply of
           Select_threw \<Rightarrow> (False, w)
         | Select_error error \<Rightarrow> (if relation_not_found error then (True, w) else (False, w))
         | Select_data None \<Rightarrow> (True, w)
         | Select_data (Some rows) \<Rightarrow>
             (True, w\<lparr>db_settings := foldl put_setting (db_settings w) rows\<rparr>))"

text \<open>
  The pull phase of a full sync: the four pulls one after the other. The result is the
  conjunction of their results.
\<close>

definition pull_phase :: "(nat \<Rightarrow> int) \<Rightarrow> pull_replies \<Rightarrow> world \<Rightarrow> bool \<times> world" where
  "pull_phase clk r w =
     (case syncProductsFromSupabase clk (reply_products r) w of (pullProducts, w1) \<Rightarrow>
      case syncSalesFromSupabase clk (reply_sales r) w1 of (pullSales, w2) \<Rightarrow>
      case syncNotificationsFromSupabase (reply_notifications r) w2 of (pullNotifications, w3) \<Rightarrow>
      case syncSettingsFromSupabase (reply_settings r) w3 of (pullSettings, w4) \<Rightarrow>
        (pullProducts \<and> pullSales \<and> pullNotifications \<and> pullSettings, w4))"

section \<open>Push (sync.ts)\<close>

text \<open>
  \<open>idMappings\<close> is a plain object from old ids to new ones. \<open>idm_truthy\<close> is
  \<open>idMappings[k]\<close> read as a condition (an absent or empty entry is falsy), and
  \<open>mapped_or_self\<close> is \<open>idMappings[k] || k\<close>.
  Only own entries are modelled: the names a plain object inherits (\<open>constructor\<close>,
  \<open>toString\<close> and the like), for which the source would read a function, are no ids the
  application mints (UUIDs and \<open>local_\<close>, \<open>sale_\<close>, \<open>notif_\<close>, \<open>setting_\<close>, \<open>remap_\<close>
  ids), and are left out.
\<close>

type_synonym id_mappings = "(string \<times> string) list"

definition idm_truthy :: "id_mappings \<Rightarrow> string \<Rightarrow> string option" where
  "idm_truthy idm k =
     (case map_of idm k of None \<Rightarrow> None | Some v \<Rightarrow> if v = [] then None else Some v)"

definition mapped_or_self :: "id_mappings \<Rightarrow> string \<Rightarrow> string" where
  "mapped_or_self idm k = (case idm_truthy idm k of None \<Rightarrow> k | Some v \<Rightarrow> v)"

record push_result =
  success :: bool
  idMappings :: id_mappings

text \<open>STEP 1: a UUID for every products INSERT whose record id starts with \<open>local_\<close>.\<close>

definition premap_step :: "env \<Rightarrow> world \<times> id_mappings \<Rightarrow> MutationRecord \<Rightarrow> world \<times> id_mappings" where
  "premap_step e st mutation =
     (case st of (w, idm) \<Rightarrow>
        if m_table mutation = products \<and> m_operation mutation = INSERT then
          (if startsWith (m_recordId mutation) ''local_'' then
             (case draw_uuid e w of (remoteUUID, w') \<Rightarrow>
                (w', AList.update (m_recordId mutation) remoteUUID idm))
           else (w, idm))
        else (w, idm))"

text \<open>
  STEP 2: a sales mutation whose payload's \<open>product_id\<close> is a remapped id gets the new id
  in its in-memory payload, and so does the local sale when the mutation's record id
  starts with \<open>sale_\<close>. Only a non-empty string can be a key of \<open>idMappings\<close> here (its
  keys start with \<open>local_\<close>), so any other \<open>product_id\<close> rewrites nothing.
\<close>

definition payload_product_id :: "payload \<Rightarrow> string option" where
  "payload_product_id p =
     (case map_of p ''product_id'' of
        Some (JStr s) \<Rightarrow> if s = [] then None else Some s
      | _ \<Rightarrow> None)"

definition rewrite_mutation :: "id_mappings \<Rightarrow> MutationRecord \<Rightarrow> world \<Rightarrow> MutationRecord \<times> world" where
  "rewrite_mutation idm mutation w =
     (if m_table mutation = sales then
        (case payload_product_id (m_payload mutation) of
           None \<Rightarrow> (mutation, w)
         | Some productId \<Rightarrow>
             (case idm_truthy idm productId of
                None \<Rightarrow> (mutation, w)
              | Some newProductId \<Rightarrow>
                  (mutation\<lparr>m_payload :=
                      AList.update ''product_id'' (JStr newProductId) (m_payload mutation)\<rparr>,
                   if startsWith (m_recordId mutation) ''sale_'' then
                     (case tbl_get ls_id (db_sales w) (m_recordId mutation) of
                        None \<Rightarrow> w
                      | Some sale \<Rightarrow>
                          w\<lparr>db_sales := tbl_update ls_id (db_sales w) (m_recordId mutation)
                               (\<lambda>s. s\<lparr>ls_product_id := Some newProductId\<rparr>)\<rparr>)
                   else w)))
      else (mutation, w))"

fun rewrite_pass :: "id_mappings \<Rightarrow> MutationRecord list \<Rightarrow> world \<Rightarrow> MutationRecord list \<times> world" where
  "rewrite_pass idm [] w = ([], w)"
| "rewrite_pass idm (mutation # rest) w =
     (case rewrite_mutation idm mutation w of (mutation', w') \<Rightarrow>
      case rewrite_pass idm rest w' of (rest', w'') \<Rightarrow> (mutation' # rest', w''))"

text \<open>
  STEP 3, the body of the \<open>try\<close> for one mutation. It ends in one of three ways: through
  \<open>continue\<close> after marking the mutation synced (\<open>Skipped\<close>), by reaching the end of the
  body (\<open>Done\<close>), or by throwing (\<open>Thrown\<close>, with the text of the error). Dexie's \<open>add\<close>
  throws ConstraintError on a taken key and DataError on a missing one.
\<close>

datatype outcome =
    Skipped world id_mappings
  | Done world id_mappings
  | Thrown string world id_mappings

text \<open>
  \<open>const { error } = await supabase...; if (error) throw error;\<close> followed by the rest
  of the body.
\<close>

definition after_write ::
  "env \<Rightarrow> remote_call \<Rightarrow> world \<Rightarrow> id_mappings \<Rightarrow> (world \<Rightarrow> outcome) \<Rightarrow> outcome" where
  "after_write e c w idm rest =
     (case remote_write e c w of
        (Some err, w1) \<Rightarrow> Thrown err w1 idm
      | (None, w1) \<Rightarrow> rest w1)"

text \<open>\<open>finalPayload.id = v; delete finalPayload.synced\<close>\<close>

definition local_payload :: "jsval \<Rightarrow> payload \<Rightarrow> payload" where
  "local_payload v p = AList.delete ''synced'' (AList.update ''id'' v p)"

text \<open>
  \<open>db.products.update(id, { synced: true, lastSyncedAt: new Date().toISOString() })\<close>,
  and the same for sales.
\<close>

definition mark_product_synced :: "env \<Rightarrow> string \<Rightarrow> world \<Rightarrow> world" where
  "mark_product_synced e recordId w =
     (case read_clock e w of
        (now, w') \<Rightarrow>
          w'\<lparr>db_products := tbl_update lp_id (db_products w') recordId
                (\<lambda>p. p\<lparr>lp_synced := True, lp_lastSyncedAt := Some now\<rparr>)\<rparr>)"

definition mark_sale_synced :: "env \<Rightarrow> string \<Rightarrow> world \<Rightarrow> world" where
  "mark_sale_synced e recordId w =
     (case read_clock e w of
        (now, w') \<Rightarrow>
          w'\<lparr>db_sales := tbl_update ls_id (db_sales w') recordId
                (\<lambda>s. s\<lparr>ls_synced := True, ls_lastSyncedAt := Some now\<rparr>)\<rparr>)"

text \<open>
  After a successful insert of an offline-created record: if the local row is still
  there, it is deleted and added again under the new id, marked synced. For a product
  the new id is \<open>finalPayload.id\<close>, which is \<open>undefined\<close> when \<open>idMappings\<close> has no entry.
\<close>

definition rekey_product :: "env \<Rightarrow> string \<Rightarrow> string option \<Rightarrow> world \<Rightarrow> id_mappings \<Rightarrow> outcome" where
  "rekey_product e recordId newId w idm =
     (case tbl_get lp_id (db_products w) recordId of
        None \<Rightarrow> Done w idm
      | Some localProduct \<Rightarrow>
          (case read_clock e (w\<lparr>db_products := tbl_delete lp_id (db_products w) recordId\<rparr>) of
             (now, w2) \<Rightarrow>
               (case newId of
                  None \<Rightarrow> Thrown ''DataError'' w2 idm
                | Some newId \<Rightarrow>
                    (case tbl_add lp_id (db_products w2)
                            (localProduct\<lparr>lp_id := newId, lp_synced := True,
                               lp_lastSyncedAt := Some now\<rparr>) of
                       None \<Rightarrow> Thrown ''ConstraintError'' w2 idm
                     | Some t \<Rightarrow> Done (w2\<lparr>db_products := t\<rparr>) idm))))"

definition rekey_sale :: "env \<Rightarrow> string \<Rightarrow> string \<Rightarrow> world \<Rightarrow> id_mappings \<Rightarrow> outcome" where
  "rekey_sale e recordId newId w idm =
     (case tbl_get ls_id (db_sales w) recordId of
        None \<Rightarrow> Done w idm
      | Some localSale \<Rightarrow>
          (case read_clock e (w\<lparr>db_sales := tbl_delete ls_id (db_sales w) recordId\<rparr>) of
             (now, w2) \<Rightarrow>
               (case tbl_add ls_id (db_sales w2)
                       (localSale\<lparr>ls_id := newId, ls_synced := True, ls_lastSyncedAt := Some now\<rparr>) of
                  None \<Rightarrow> Thrown ''ConstraintError'' w2 idm
                | Some t \<Rightarrow> Done (w2\<lparr>db_sales := t\<rparr>) idm)))"

definition rekey_notification :: "string \<Rightarrow> string \<Rightarrow> world \<Rightarrow> id_mappings \<Rightarrow> outcome" where
  "rekey_notification recordId newId w idm =
     (case tbl_get ln_id (db_notifications w) recordId of
        None \<Rightarrow> Done w idm
      | Some localNotif \<Rightarrow>
          (let w2 = w\<lparr>db_notifications := tbl_delete ln_id (db_notifications w) recordId\<rparr>
           in case tbl_add ln_id (db_notifications w2) (localNotif\<lparr>ln_id := newId, ln_synced := True\<rparr>) of
                None \<Rightarrow> Thrown ''ConstraintError'' w2 idm
              | Some t \<Rightarrow> Done (w2\<lparr>db_notifications := t\<rparr>) idm))"

definition rekey_setting :: "string \<Rightarrow> string \<Rightarrow> world \<Rightarrow> id_mappings \<Rightarrow> outcome" where
  "rekey_setting recordId newId w idm =
     (case tbl_get lst_id (db_settings w) recordId of
        None \<Rightarrow> Done w idm
      | Some localSetting \<Rightarrow>
          (let w2 = w\<lparr>db_settings := tbl_delete lst_id (db_settings w) recordId\<rparr>
           in case tbl_add lst_id (db_settings w2) (localSetting\<lparr>lst_id := newId, lst_synced := True\<rparr>) of
                None \<Rightarrow> Thrown ''ConstraintError'' w2 idm
              | Some t \<Rightarrow> Done (w2\<lparr>db_settings := t\<rparr>) idm))"

definition push_products :: "env \<Rightarrow> MutationRecord \<Rightarrow> world \<Rightarrow> id_mappings \<Rightarrow> outcome" where
  "push_products e mutation w idm =
     (if m_operation mutation = INSERT then
        (let isLocalRecord = startsWith (m_recordId mutation) ''local_'';
             remoteUUID = map_of idm (m_recordId mutation);
             finalPayload =
               (if isLocalRecord then
                  local_payload (case remoteUUID of None \<Rightarrow> JUndefined | Some u \<Rightarrow> JStr u)
                    (m_payload mutation)
                else m_payload mutation)
         in after_write e (Insert_row products finalPayload) w idm
              (\<lambda>w1. if isLocalRecord then rekey_product e (m_recordId mutation) remoteUUID w1 idm
                    else Done (mark_product_synced e (m_recordId mutation) w1) idm))
      else if m_operation mutation = UPDATE then
        (if startsWith (m_recordId mutation) ''local_'' then
           Skipped (markMutationSynced (m_id mutation) w) idm
         else
           (let recordId = mapped_or_self idm (m_recordId mutation)
            in after_write e (Update_row products (m_payload mutation) recordId) w idm
                 (\<lambda>w1. Done (mark_product_synced e recordId w1) idm)))
      else if m_operation mutation = DELETE then
        (if startsWith (m_recordId mutation) ''local_'' then
           Skipped (markMutationSynced (m_id mutation) w) idm
         else
           (let recordId = mapped_or_self idm (m_recordId mutation)
            in after_write e (Delete_row products recordId) w idm (\<lambda>w1. Done w1 idm)))
      else Done w idm)"

definition push_sales :: "env \<Rightarrow> MutationRecord \<Rightarrow> world \<Rightarrow> id_mappings \<Rightarrow> outcome" where
  "push_sales e mutation w idm =
     (if m_operation mutation = INSERT then
        (if startsWith (m_recordId mutation) ''sale_'' then
           (case draw_uuid e w of
              (remoteUUID, w0) \<Rightarrow>
                (let idm' = AList.update (m_recordId mutation) remoteUUID idm
                 in after_write e
                      (Insert_row sales (local_payload (JStr remoteUUID) (m_payload mutation))) w0 idm'
                      (\<lambda>w1. rekey_sale e (m_recordId mutation) remoteUUID w1 idm')))
         else
           after_write e (Insert_row sales (m_payload mutation)) w idm
             (\<lambda>w1. Done (mark_sale_synced e (m_recordId mutation) w1) idm))
      else if m_operation mutation = UPDATE then
        (if startsWith (m_recordId mutation) ''sale_'' then
           Skipped (markMutationSynced (m_id mutation) w) idm
         else
           (let recordId = mapped_or_self idm (m_recordId mutation)
            in after_write e (Update_row sales (m_payload mutation) recordId) w idm
                 (\<lambda>w1. Done (mark_sale_synced e recordId w1) idm)))
      else if m_operation mutation = DELETE then
        (if startsWith (m_recordId mutation) ''sale_'' then
           Skipped (markMutationSynced (m_id mutation) w) idm
         else
           (let recordId = mapped_or_self idm (m_recordId mutation)
            in after_write e (Delete_row sales recordId) w idm (\<lambda>w1. Done w1 idm)))
      else Done w idm)"

definition push_notifications :: "env \<Rightarrow> MutationRecord \<Rightarrow> world \<Rightarrow> id_mappings \<Rightarrow> outcome" where
  "push_notifications e mutation w idm =
     (if m_operation mutation = INSERT then
        (if startsWith (m_recordId mutation) ''notif_'' then
           (case draw_uuid e w of
              (remoteUUID, w0) \<Rightarrow>
                (let idm' = AList.update (m_recordId mutation) remoteUUID idm
                 in after_write e
                      (Insert_row notifications (local_payload (JStr remoteUUID) (m_payload mutation)))
                      w0 idm'
                      (\<lambda>w1. rekey_notification (m_recordId mutation) remoteUUID w1 idm')))
         else
           after_write e (Insert_row notifications (m_payload mutation)) w idm (\<lambda>w1. Done w1 idm))
      else if m_operation mutation = UPDATE then
        (if startsWith (m_recordId mutation) ''notif_'' then
           Skipped (markMutationSynced (m_id mutation) w) idm
         else
           (let recordId = mapped_or_self idm (m_recordId mutation)
            in after_write e (Update_row notifications (m_payload mutation) recordId) w idm
                 (\<lambda>w1. Done w1 idm)))
      else if m_operation mutation = DELETE then
        (if startsWith (m_recordId mutation) ''notif_'' then
           Skipped (markMutationSynced (m_id mutation) w) idm
         else
           (let recordId = mapped_or_self idm (m_recordId mutation)
            in after_write e (Delete_row notifications recordId) w idm (\<lambda>w1. Done w1 idm)))
      else Done w idm)"

definition push_settings :: "env \<Rightarrow> MutationRecord \<Rightarrow> world \<Rightarrow> id_mappings \<Rightarrow> outcome" where
  "push_settings e mutation w idm =
     (if m_operation mutation = INSERT then
        (if startsWith (m_recordId mutation) ''setting_'' then
           (case draw_uuid e w of
              (remoteUUID, w0) \<Rightarrow>
                (let idm' = AList.update (m_recordId mutation) remoteUUID idm
                 in after_write e
                      (Insert_row settings (local_payload (JStr remoteUUID) (m_payload mutation)))
                      w0 idm'
                      (\<lambda>w1. rekey_setting (m_recordId mutation) remoteUUID w1 idm')))
         else
           after_write e (Insert_row settings (m_payload mutation)) w idm (\<lambda>w1. Done w1 idm))
      else if m_operation mutation = UPDATE then
        (if startsWith (m_recordId mutation) ''setting_'' then
           Skipped (markMutationSynced (m_id mutation) w) idm
         else
           (let recordId = mapped_or_self idm (m_recordId mutation)
            in after_write e (Update_row settings (m_payload mutation) recordId) w idm
                 (\<lambda>w1. Done w1 idm)))
      else if m_operation mutation = DELETE then
        (if startsWith (m_recordId mutation) ''setting_'' then
           Skipped (markMutationSynced (m_id mutation) w) idm
         else
           (let recordId = mapped_or_self idm (m_recordId mutation)
            in after_write e (Delete_row settings recordId) w idm (\<lambda>w1. Done w1 idm)))
      else Done w idm)"

definition push_attempt :: "env \<Rightarrow> MutationRecord \<Rightarrow> world \<Rightarrow> id_mappings \<Rightarrow> outcome" where
  "push_attempt e mutation w idm =
     (if m_table mutation = products then push_products e mutation w idm
      else if m_table mutation = sales then push_sales e mutation w idm
      else if m_table mutation = notifications then push_notifications e mutation w idm
      else if m_table mutation = settings then push_settings e mutation w idm
      else Done w idm)"

text \<open>
  One turn of the STEP 3 loop: the state is the world, \<open>idMappings\<close>, \<open>syncedCount\<close> and
  \<open>failedCount\<close>.
\<close>

definition push_step ::
  "env \<Rightarrow> world \<times> id_mappings \<times> nat \<times> nat \<Rightarrow> MutationRecord \<Rightarrow> world \<times> id_mappings \<times> nat \<times> nat" where
  "push_step e st mutation =
     (case st of (w, idm, syncedCount, failedCount) \<Rightarrow>
        (case push_attempt e mutation w idm of
           Skipped w' idm' \<Rightarrow> (w', idm', syncedCount + 1, failedCount)
         | Done w' idm' \<Rightarrow> (markMutationSynced (m_id mutation) w', idm', syncedCount + 1, failedCount)
         | Thrown err w' idm' \<Rightarrow>
             (markMutationFailed (m_id mutation) err w', idm', syncedCount, failedCount + 1)))"

definition pushPendingMutations :: "env \<Rightarrow> world \<Rightarrow> push_result \<times> world" where
  "pushPendingMutations e w0 =
     (let mutations = getPendingMutations w0
      in if mutations = [] then (\<lparr>success = True, idMappings = []\<rparr>, w0)
         else
           (let w1 = w0\<lparr>requests := requests w0 @ [Select_head products]\<rparr>;
                aborted = (\<lparr>success = False, idMappings = []\<rparr>, w1)
            in case remote e (requests w0) (Select_head products) of
                 Write_threw msg \<Rightarrow> aborted
               | Write_done prodHeadErr \<Rightarrow>
                   if (case prodHeadErr of None \<Rightarrow> False | Some err \<Rightarrow> relation_not_found err)
                   then aborted
                   else
                     (case foldl (premap_step e) (w1, []) mutations of
                        (w2, idm) \<Rightarrow>
                          (case rewrite_pass idm mutations w2 of
                             (mutations', w3) \<Rightarrow>
                               (case foldl (push_step e) (w3, idm, 0, 0) mutations' of
                                  (w4, idm', syncedCount, failedCount) \<Rightarrow>
                                    (\<lparr>success = (failedCount = 0), idMappings = idm'\<rparr>,
                                     clearSyncedMutations w4))))))"

section \<open>Reference fixup and full sync (sync.ts)\<close>

text \<open>The decimal rendering of a number inside a template string.\<close>

function decimal :: "nat \<Rightarrow> string" where
  "decimal n =
     (if n < 10 then [''0123456789'' ! n]
      else decimal (n div 10) @ [''0123456789'' ! (n mod 10)])"
  by pat_completeness auto
termination
  by (relation "measure (\<lambda>n. n)") auto

declare decimal.simps [simp del]

definition String_of_int :: "int \<Rightarrow> string" where
  "String_of_int i = (if i < 0 then CHR ''-'' # decimal (nat (- i)) else decimal (nat i))"

text \<open>
  The loop of \<open>updateRemappedReferences\<close> over the sales as listed on entry. A sale whose
  \<open>product_id\<close> has a truthy entry in \<open>idMappings\<close> (a \<open>null\<close> product id reads the key
  \<open>null\<close>) is rewritten locally and an UPDATE mutation is added for it; an \<open>add\<close> that
  throws ends the loop, as the surrounding \<open>catch\<close> does.
\<close>

fun remap_sales :: "env \<Rightarrow> id_mappings \<Rightarrow> LocalSale list \<Rightarrow> world \<Rightarrow> world" where
  "remap_sales e idm [] w = w"
| "remap_sales e idm (sale # rest) w =
     (case idm_truthy idm (case ls_product_id sale of None \<Rightarrow> ''null'' | Some pid \<Rightarrow> pid) of
        None \<Rightarrow> remap_sales e idm rest w
      | Some newProductId \<Rightarrow>
          (case read_clock e
                  (w\<lparr>db_sales := tbl_update ls_id (db_sales w) (ls_id sale)
                        (\<lambda>s. s\<lparr>ls_product_id := Some newProductId\<rparr>)\<rparr>) of
             (t1, w1) \<Rightarrow>
               (case draw_random e w1 of
                  (rnd, w2) \<Rightarrow>
                    (case read_clock e w2 of
                       (t2, w3) \<Rightarrow>
                         (case tbl_add m_id (db_mutations w3)
                                 \<lparr>m_id = ''remap_'' @ String_of_int t1 @ ''_'' @ rnd,
                                  m_clientId =
                                    (case mbodze_client_id e of
                                       None \<Rightarrow> ''unknown''
                                     | Some c \<Rightarrow> if c = [] then ''unknown'' else c),
                                  m_table = sales,
                                  m_operation = UPDATE,
                                  m_recordId = ls_id sale,
                                  m_payload = [(''product_id'', JStr newProductId)],
                                  m_timestamp = t2,
                                  m_status = pending,
                                  m_retries = 0,
                                  m_lastError = None\<rparr> of
                            None \<Rightarrow> w3
                          | Some t \<Rightarrow> remap_sales e idm rest (w3\<lparr>db_mutations := t\<rparr>))))))"

definition updateRemappedReferences :: "env \<Rightarrow> id_mappings \<Rightarrow> world \<Rightarrow> world" where
  "updateRemappedReferences e idm w =
     (if idm = [] then w else remap_sales e idm (tbl_toArray ls_id (db_sales w)) w)"

text \<open>
  The module state of sync.ts, and \<open>performFullSync\<close> with \<open>now\<close> the value of
  \<open>Date.now()\<close> on entry. The guard and the two assignments run before the first
  \<open>await\<close>; \<open>finally\<close> clears \<open>syncInProgress\<close>.
\<close>

record sync_state =
  syncInProgress :: bool
  lastSyncAttempt :: int

definition SYNC_DEBOUNCE_MS :: int where
  "SYNC_DEBOUNCE_MS = 1000"

definition full_sync_body :: "env \<Rightarrow> world \<Rightarrow> bool \<times> world" where
  "full_sync_body e w =
     (case pull_phase (clock e) (selects e) w of
        (pulled, w1) \<Rightarrow>
          (case pushPendingMutations e w1 of
             (pushResult, w2) \<Rightarrow>
               (let w3 = syncImagesToSupabase e w2;
                    w4 = (if idMappings pushResult \<noteq> []
                          then updateRemappedReferences e (idMappings pushResult) w3
                          else w3)
                in case read_clock e w4 of
                     (stamp, w5) \<Rightarrow>
                       (pulled \<and> success pushResult,
                        w5\<lparr>db_syncMeta := tbl_update sm_key (db_syncMeta w5) ''sync_meta''
                              (\<lambda>m. m\<lparr>sm_lastSyncedAt := stamp\<rparr>)\<rparr>))))"

definition performFullSync :: "env \<Rightarrow> int \<Rightarrow> sync_state \<times> world \<Rightarrow> bool \<times> sync_state \<times> world" where
  "performFullSync e now st =
     (case st of (ss, w) \<Rightarrow>
        if now - lastSyncAttempt ss < SYNC_DEBOUNCE_MS then (False, ss, w)
        else if syncInProgress ss then (False, ss, w)
        else
          (let ss1 = ss\<lparr>syncInProgress := True, lastSyncAttempt := now\<rparr>
           in case full_sync_body e w of
                (succeeded, w') \<Rightarrow> (succeeded, ss1\<lparr>syncInProgress := False\<rparr>, w')))"

section \<open>Stock status (Products.tsx)\<close>

record StockStatus =
  label :: string
  color :: string
  bgColor :: string

definition getStockStatus :: "Product \<Rightarrow> StockStatus" where
  "getStockStatus product =
     (if prod_quantity product = 0 then
        \<lparr>label = ''Out of Stock'', color = ''text-red-600'', bgColor = ''bg-red-100''\<rparr>
      else if prod_quantity product \<le> prod_low_stock_level product then
        \<lparr>label = ''Low Stock'', color = ''text-orange-600'', bgColor = ''bg-orange-100''\<rparr>
      else
        \<lparr>label = ''In Stock'', color = ''text-green-600'', bgColor = ''bg-green-100''\<rparr>)"
section \<open>Notions used in the proofs\<close>



text \<open>
  A stretch of the \<open>try\<close> body leaves the queue alone: neither the mutations table nor
  the queue's console lines change. An attempt leaves the queue alone except for the one
  \<open>markMutationSynced\<close> of a skip.
\<close>

definition keeps_queue :: "world \<Rightarrow> world \<Rightarrow> bool" where
  "keeps_queue w w' = (db_mutations w' = db_mutations w \<and> queue_console w' = queue_console w)"

definition attempt_keeps_queue :: "world \<Rightarrow> MutationRecord \<Rightarrow> outcome \<Rightarrow> bool" where
  "attempt_keeps_queue w m out =
     (case out of
        Skipped w' idm' \<Rightarrow> w' = markMutationSynced (m_id m) w
      | Done w' idm' \<Rightarrow> keeps_queue w w'
      | Thrown err w' idm' \<Rightarrow> keeps_queue w w')"

section \<open>Example inputs\<close>

text \<open>
  A backend that accepts every request and has no rows, a clock that advances by one
  millisecond per reading, and an empty local store.
\<close>

definition example_env :: env where
  "example_env =
     \<lparr>clock = (\<lambda>k. 1700000000000 + int k),
      uuidv4 = (\<lambda>k. ''3f2b8c1e-7d4a-4e6f-9a1b-00000000000'' @ decimal k),
      random36 = (\<lambda>k. ''k3j9x2m1q''),
      mbodze_client_id = Some ''client_1700000000000_a1b2c3d4e'',
      remote = (\<lambda>history c. Write_done None),
      selects = \<lparr>reply_products = Select_data (Some []), reply_sales = Select_data (Some []),
                  reply_notifications = Select_data (Some []), reply_settings = Select_data (Some [])\<rparr>,
      syncImagesToSupabase = (\<lambda>w. w)\<rparr>"

definition empty_world :: world where
  "empty_world =
     \<lparr>db_products = [], db_sales = [], db_notifications = [], db_settings = [],
      db_mutations = [], db_syncMeta = [], requests = [], uuid_draws = 0, clock_reads = 0,
      random_draws = 0, queue_console = []\<rparr>"

text \<open>The error of a backend whose tables are not provisioned, and such a backend.\<close>

definition table_missing :: pg_error where
  "table_missing =
     \<lparr>err_code = Some ''PGRST205'',
      err_message = Some ''Could not find the table public.products in the schema cache'',
      err_text = ''[object Object]''\<rparr>"

definition unprovisioned_env :: env where
  "unprovisioned_env = example_env\<lparr>remote := (\<lambda>history c. Write_done (Some table_missing))\<rparr>"

text \<open>
  A notification queued for insertion and, a minute later, the update that clears it; the
  later mutation drew the smaller UUID.
\<close>

definition notification_insert :: MutationRecord where
  "notification_insert =
     \<lparr>m_id = ''f47ac10b-58cc-4372-a567-0e02b2c3d479'',
      m_clientId = ''client_1700000000000_a1b2c3d4e'',
      m_table = notifications,
      m_operation = INSERT,
      m_recordId = ''7c9e6679-7425-40de-944b-e07fc1f90ae7'',
      m_payload = [(''type'', JStr ''info''), (''message'', JStr ''Stock taken''),
                   (''product_id'', JNull), (''created_at'', JStr ''2023-11-14T22:13:20.000Z''),
                   (''cleared'', JBool False)],
      m_timestamp = 1700000000000,
      m_status = pending,
      m_retries = 0,
      m_lastError = None\<rparr>"

definition notification_update :: MutationRecord where
  "notification_update =
     \<lparr>m_id = ''0b9e6f0e-2c1d-4a3b-8f6e-5d4c3b2a1f00'',
      m_clientId = ''client_1700000000000_a1b2c3d4e'',
      m_table = notifications,
      m_operation = UPDATE,
      m_recordId = ''7c9e6679-7425-40de-944b-e07fc1f90ae7'',
      m_payload = [(''cleared'', JBool True)],
      m_timestamp = 1700000060000,
      m_status = pending,
      m_retries = 0,
      m_lastError = None\<rparr>"

definition reordered_queue :: world where
  "reordered_queue = empty_world\<lparr>db_mutations := [notification_insert, notification_update]\<rparr>"

text \<open>A sale made offline, with its queued insert.\<close>

definition offline_sale_insert :: MutationRecord where
  "offline_sale_insert =
     \<lparr>m_id = ''a3bb189e-8bf9-4888-9912-ace4e6543002'',
      m_clientId = ''client_1700000000000_a1b2c3d4e'',
      m_table = sales,
      m_operation = INSERT,
      m_recordId = ''sale_1700000000000_x7k2m9p4q'',
      m_payload = [(''id'', JStr ''sale_1700000000000_x7k2m9p4q''),
                   (''product_id'', JStr ''16fd2706-8baf-433b-82eb-8c7fada847da''),
                   (''quantity_sold'', JNum 2), (''synced'', JBool False)],
      m_timestamp = 1700000000000,
      m_status = pending,
      m_retries = 0,
      m_lastError = None\<rparr>"

definition offline_sale_queue :: world where
  "offline_sale_queue = empty_world\<lparr>db_mutations := [offline_sale_insert]\<rparr>"

text \<open>A product made offline, with its queued insert and a later restock.\<close>

definition offline_product_insert :: MutationRecord where
  "offline_product_insert =
     \<lparr>m_id = ''c56a4180-65aa-42ec-a945-5fd21dec0538'',
      m_clientId = ''client_1700000000000_a1b2c3d4e'',
      m_table = products,
      m_operation = INSERT,
      m_recordId = ''local_1700000000000_h4c8r2e6a'',
      m_payload = [(''id'', JStr ''local_1700000000000_h4c8r2e6a''), (''name'', JStr ''Hair Cream''),
                   (''quantity'', JNum 10), (''synced'', JBool False)],
      m_timestamp = 1700000000000,
      m_status = pending,
      m_retries = 0,
      m_lastError = None\<rparr>"

definition offline_product_update :: MutationRecord where
  "offline_product_update =
     \<lparr>m_id = ''e4eaaaf2-d142-11e1-b3e4-080027620cdd'',
      m_clientId = ''client_1700000000000_a1b2c3d4e'',
      m_table = products,
      m_operation = UPDATE,
      m_recordId = ''local_1700000000000_h4c8r2e6a'',
      m_payload = [(''quantity'', JNum 15)],
      m_timestamp = 1700000030000,
      m_status = pending,
      m_retries = 4,
      m_lastError = Some ''TypeError: Failed to fetch''\<rparr>"

definition offline_product_queue :: world where
  "offline_product_queue =
     empty_world\<lparr>db_mutations := [offline_product_insert, offline_product_update]\<rparr>"

text \<open>A backend with one product, and a product whose quantity was entered as \<open>-1\<close>.\<close>

definition hair_cream :: Product where
  "hair_cream =
     \<lparr>prod_id = ''16fd2706-8baf-433b-82eb-8c7fada847da'',
      prod_name = ''Hair Cream'',
      prod_category = ''Hair'',
      prod_buying_price = 200,
      prod_selling_price = 500,
      prod_quantity = 10,
      prod_low_stock_level = 7,
      prod_image_url = [],
      prod_created_at = ''2023-11-14T22:13:20+00:00'',
      prod_updated_at = ''2023-11-14T22:13:20+00:00''\<rparr>"

definition one_product :: pull_replies where
  "one_product =
     \<lparr>reply_products = Select_data (Some [hair_cream]), reply_sales = Select_data (Some []),
      reply_notifications = Select_data (Some []), reply_settings = Select_data (Some [])\<rparr>"



definition negative_stock :: Product where
  "negative_stock = hair_cream\<lparr>prod_quantity := - 1\<rparr>"

section \<open>Tables\<close>

lemma tbl_get_update:
  assumes "\<And>x. key (f x) = key x"
  shows "tbl_get key (tbl_update key t k f) k' =
         (if k' = k then map_option f (tbl_get key t k) else tbl_get key t k')"
  using assms by (induction t) (auto simp: tbl_get_def tbl_update_def)

lemma filter_tbl_update:
  assumes "\<And>x. key (f x) = key x"
  shows "filter (\<lambda>x. key x \<noteq> k) (tbl_update key t k f) = filter (\<lambda>x. key x \<noteq> k) t"
  using assms by (induction t) (auto simp: tbl_update_def)

lemma tbl_get_mem: "tbl_get key t k = Some x \<Longrightarrow> x \<in> set t \<and> key x = k"
  by (auto simp: tbl_get_def find_Some_iff)


lemma tbl_update_other: "x \<in> set t \<Longrightarrow> key x \<noteq> k \<Longrightarrow> x \<in> set (tbl_update key t k f)"
  by (force simp: tbl_update_def)











section \<open>The mutation queue\<close>

lemma getPending_status: "x \<in> set (getPendingMutations w) \<Longrightarrow> m_status x = pending"
  by (auto simp: getPendingMutations_def where_equals_toArray_def)

lemma getPending_set:
  "set (getPendingMutations w) = {m \<in> set (db_mutations w). m_status m = pending}"
  by (auto simp: getPendingMutations_def where_equals_toArray_def)

lemma get_markMutationFailed:
  assumes "tbl_get m_id (db_mutations w) i = Some m"
  shows "tbl_get m_id (db_mutations (markMutationFailed i err w)) i =
         Some (m\<lparr>m_status := (if 5 \<le> m_retries m + 1 then failed else pending),
                 m_retries := m_retries m + 1, m_lastError := Some err\<rparr>)"
  using assms by (simp add: markMutationFailed_def Let_def tbl_get_update)

lemma get_retryFailedMutation:
  assumes "tbl_get m_id (db_mutations w) i = Some m"
  shows "tbl_get m_id (db_mutations (retryFailedMutation i w)) i =
         Some (m\<lparr>m_status := pending, m_retries := 0, m_lastError := None\<rparr>)"
  using assms by (simp add: retryFailedMutation_def tbl_get_update)

lemma funpow_markMutationFailed:
  assumes "tbl_get m_id (db_mutations w) i = Some m"
      and "m_retries m = 0" and "m_lastError m = None" and "m_status m = pending"
  shows "tbl_get m_id (db_mutations ((markMutationFailed i err ^^ n) w)) i =
         Some (m\<lparr>m_status := (if n < 5 then pending else failed), m_retries := int n,
                 m_lastError := (if n = 0 then None else Some err)\<rparr>)"
proof (induction n)
  case 0
  then show ?case using assms by simp
next
  case (Suc n)
  show ?case by (simp add: get_markMutationFailed[OF Suc.IH])
qed




lemma other_row_markMutationSynced:
  "x \<in> set (db_mutations w) \<Longrightarrow> m_id x \<noteq> i \<Longrightarrow> x \<in> set (db_mutations (markMutationSynced i w))"
  by (simp add: markMutationSynced_def tbl_update_other)

lemma other_row_markMutationFailed:
  "x \<in> set (db_mutations w) \<Longrightarrow> m_id x \<noteq> i \<Longrightarrow> x \<in> set (db_mutations (markMutationFailed i err w))"
  by (simp add: markMutationFailed_def Let_def tbl_update_other split: option.splits)

section \<open>Pull\<close>


























section \<open>Push\<close>

lemma same_but_uuid_draws: "\<exists>n. w = w\<lparr>uuid_draws := n\<rparr>"
  by (rule exI[of _ "uuid_draws w"]) simp

lemma premap_step_world:
  "premap_step e (w, idm) m = (w', idm') \<Longrightarrow>
   (\<exists>n. w' = w\<lparr>uuid_draws := n\<rparr>) \<and> uuid_draws w \<le> uuid_draws w'"
  by (auto simp: premap_step_def draw_uuid_def same_but_uuid_draws split: if_splits)

lemma premap_world:
  "foldl (premap_step e) (w, idm) ms = (w', idm') \<Longrightarrow>
   (\<exists>n. w' = w\<lparr>uuid_draws := n\<rparr>) \<and> uuid_draws w \<le> uuid_draws w'"
proof (induction ms arbitrary: w idm)
  case Nil
  then show ?case by (auto simp: same_but_uuid_draws)
next
  case (Cons m ms)
  obtain w1 idm1 where s: "premap_step e (w, idm) m = (w1, idm1)"
    by (cases "premap_step e (w, idm) m")
  from Cons.prems s have f: "foldl (premap_step e) (w1, idm1) ms = (w', idm')" by simp
  from premap_step_world[OF s] Cons.IH[OF f] show ?case by auto
qed

lemma premap_entries:
  "foldl (premap_step e) (w, idm) ms = (w', idm') \<Longrightarrow>
   m \<in> set ms \<Longrightarrow> m_table m = products \<Longrightarrow> m_operation m = INSERT \<Longrightarrow>
   startsWith (m_recordId m) ''local_'' \<Longrightarrow>
   \<exists>k. uuid_draws w \<le> k \<and> k < uuid_draws w' \<and> map_of idm' (m_recordId m) = Some (uuidv4 e k)"
proof (induction ms arbitrary: w' idm' rule: rev_induct)
  case Nil
  then show ?case by simp
next
  case (snoc x ms)
  obtain w1 idm1 where f: "foldl (premap_step e) (w, idm) ms = (w1, idm1)"
    by (cases "foldl (premap_step e) (w, idm) ms")
  with snoc.prems(1) have s: "premap_step e (w1, idm1) x = (w', idm')" by simp
  have le1: "uuid_draws w \<le> uuid_draws w1" using premap_world[OF f] by simp
  have le2: "uuid_draws w1 \<le> uuid_draws w'" using premap_step_world[OF s] by simp
  show ?case
  proof (cases "m_table x = products \<and> m_operation x = INSERT
                 \<and> startsWith (m_recordId x) ''local_'' \<and> m_recordId x = m_recordId m")
    case True
    with s have "map_of idm' (m_recordId m) = Some (uuidv4 e (uuid_draws w1))"
      and "uuid_draws w' = Suc (uuid_draws w1)"
      by (auto simp: premap_step_def draw_uuid_def update_conv')
    with le1 show ?thesis by (intro exI[of _ "uuid_draws w1"]) simp
  next
    case False
    with snoc.prems have "m \<in> set ms" by auto
    from snoc.IH[OF f this snoc.prems(3,4,5)] obtain k where
      k: "uuid_draws w \<le> k" "k < uuid_draws w1" "map_of idm1 (m_recordId m) = Some (uuidv4 e k)"
      by blast
    from False s have "map_of idm' (m_recordId m) = map_of idm1 (m_recordId m)"
      by (auto simp: premap_step_def draw_uuid_def update_conv' split: if_splits)
    with k le2 show ?thesis by (intro exI[of _ k]) simp
  qed
qed

lemma rewrite_mutation_frame:
  "rewrite_mutation idm m w = (m', w') \<Longrightarrow>
   m_id m' = m_id m \<and> db_mutations w' = db_mutations w \<and> queue_console w' = queue_console w"
  by (auto simp: rewrite_mutation_def split: if_splits option.splits)

lemma rewrite_pass_frame:
  "rewrite_pass idm ms w = (ms', w') \<Longrightarrow>
   map m_id ms' = map m_id ms \<and> db_mutations w' = db_mutations w
   \<and> queue_console w' = queue_console w"
proof (induction ms arbitrary: w ms' w')
  case Nil
  then show ?case by simp
next
  case (Cons m ms)
  obtain m1 w1 where a: "rewrite_mutation idm m w = (m1, w1)"
    by (cases "rewrite_mutation idm m w")
  obtain ms2 w2 where b: "rewrite_pass idm ms w1 = (ms2, w2)"
    by (cases "rewrite_pass idm ms w1")
  from Cons.prems a b have c: "ms' = m1 # ms2" "w' = w2" by simp_all
  from rewrite_mutation_frame[OF a] Cons.IH[OF b] c show ?case by simp
qed

lemma keeps_queue_refl: "keeps_queue w w"
  by (simp add: keeps_queue_def)

lemma keeps_remote_write: "keeps_queue w0 w \<Longrightarrow> keeps_queue w0 (snd (remote_write e c w))"
  by (simp add: keeps_queue_def remote_write_def split: write_reply.split option.split)

lemma keeps_draw_uuid: "keeps_queue w0 w \<Longrightarrow> keeps_queue w0 (snd (draw_uuid e w))"
  by (simp add: keeps_queue_def draw_uuid_def)

lemma keeps_mark_product: "keeps_queue w0 w \<Longrightarrow> keeps_queue w0 (mark_product_synced e r w)"
  by (simp add: keeps_queue_def mark_product_synced_def read_clock_def)

lemma keeps_mark_sale: "keeps_queue w0 w \<Longrightarrow> keeps_queue w0 (mark_sale_synced e r w)"
  by (simp add: keeps_queue_def mark_sale_synced_def read_clock_def)

lemma attempt_Done: "keeps_queue w0 w \<Longrightarrow> attempt_keeps_queue w0 m (Done w idm)"
  and attempt_Skipped: "attempt_keeps_queue w0 m (Skipped (markMutationSynced (m_id m) w0) idm)"
  by (simp_all add: attempt_keeps_queue_def)

lemma attempt_after_write:
  assumes "keeps_queue w0 w"
      and "\<And>w1. keeps_queue w0 w1 \<Longrightarrow> attempt_keeps_queue w0 m (rest w1)"
  shows "attempt_keeps_queue w0 m (after_write e c w idm rest)"
proof (cases "remote_write e c w")
  case (Pair r w1)
  with keeps_remote_write[OF assms(1), of e c] have k: "keeps_queue w0 w1" by simp
  show ?thesis
  proof (cases r)
    case None
    with Pair assms(2)[OF k] show ?thesis by (simp add: after_write_def)
  next
    case (Some err)
    with Pair k show ?thesis by (simp add: after_write_def attempt_keeps_queue_def)
  qed
qed

lemma attempt_rekey_product:
  "keeps_queue w0 w \<Longrightarrow> attempt_keeps_queue w0 m (rekey_product e r n w idm)"
  by (simp add: rekey_product_def attempt_keeps_queue_def keeps_queue_def read_clock_def
      split: option.split)

lemma attempt_rekey_sale:
  "keeps_queue w0 w \<Longrightarrow> attempt_keeps_queue w0 m (rekey_sale e r n w idm)"
  by (simp add: rekey_sale_def attempt_keeps_queue_def keeps_queue_def read_clock_def
      split: option.split)

lemma attempt_rekey_notification:
  "keeps_queue w0 w \<Longrightarrow> attempt_keeps_queue w0 m (rekey_notification r n w idm)"
  by (simp add: rekey_notification_def attempt_keeps_queue_def keeps_queue_def Let_def
      split: option.split)

lemma attempt_rekey_setting:
  "keeps_queue w0 w \<Longrightarrow> attempt_keeps_queue w0 m (rekey_setting r n w idm)"
  by (simp add: rekey_setting_def attempt_keeps_queue_def keeps_queue_def Let_def
      split: option.split)

lemmas attempt_intros =
  attempt_after_write attempt_Done attempt_Skipped attempt_rekey_product attempt_rekey_sale
  attempt_rekey_notification attempt_rekey_setting keeps_mark_product keeps_mark_sale
  keeps_queue_refl

lemma push_products_frame: "attempt_keeps_queue w m (push_products e m w idm)"
  by (auto simp: push_products_def Let_def intro!: attempt_intros)

lemma push_sales_frame: "attempt_keeps_queue w m (push_sales e m w idm)"
  using keeps_draw_uuid[OF keeps_queue_refl, of w e]
  by (auto simp: push_sales_def Let_def split: prod.split intro!: attempt_intros)

lemma push_notifications_frame: "attempt_keeps_queue w m (push_notifications e m w idm)"
  using keeps_draw_uuid[OF keeps_queue_refl, of w e]
  by (auto simp: push_notifications_def Let_def split: prod.split intro!: attempt_intros)

lemma push_settings_frame: "attempt_keeps_queue w m (push_settings e m w idm)"
  using keeps_draw_uuid[OF keeps_queue_refl, of w e]
  by (auto simp: push_settings_def Let_def split: prod.split intro!: attempt_intros)

lemma push_attempt_frame: "attempt_keeps_queue w m (push_attempt e m w idm)"
  by (simp add: push_attempt_def push_products_frame push_sales_frame push_notifications_frame
      push_settings_frame attempt_Done keeps_queue_refl)


lemma push_step_other:
  assumes "push_step e (w, idm, s, f) m = (w', idm', s', f')"
      and "x \<in> set (db_mutations w)" and "m_id x \<noteq> m_id m"
  shows "x \<in> set (db_mutations w')"
proof (cases "push_attempt e m w idm")
  case (Skipped w1 idm1)
  with push_attempt_frame[of w m e idm] have "w1 = markMutationSynced (m_id m) w"
    by (simp add: attempt_keeps_queue_def)
  with assms Skipped show ?thesis
    by (auto simp: push_step_def other_row_markMutationSynced)
next
  case (Done w1 idm1)
  with push_attempt_frame[of w m e idm] have "db_mutations w1 = db_mutations w"
    by (simp add: attempt_keeps_queue_def keeps_queue_def)
  with assms Done show ?thesis
    by (auto simp: push_step_def other_row_markMutationSynced)
next
  case (Thrown err w1 idm1)
  with push_attempt_frame[of w m e idm] have "db_mutations w1 = db_mutations w"
    by (simp add: attempt_keeps_queue_def keeps_queue_def)
  with assms Thrown show ?thesis
    by (auto simp: push_step_def other_row_markMutationFailed)
qed


lemma apply_pass_other:
  "foldl (push_step e) (w, idm, s, f) ms = (w', idm', s', f') \<Longrightarrow>
   x \<in> set (db_mutations w) \<Longrightarrow> m_id x \<notin> set (map m_id ms) \<Longrightarrow> x \<in> set (db_mutations w')"
proof (induction ms arbitrary: w idm s f)
  case Nil
  then show ?case by simp
next
  case (Cons m ms)
  obtain w1 idm1 s1 f1 where st: "push_step e (w, idm, s, f) m = (w1, idm1, s1, f1)"
    by (cases "push_step e (w, idm, s, f) m") auto
  from Cons.prems(3) have ne: "m_id x \<noteq> m_id m" and rest: "m_id x \<notin> set (map m_id ms)"
    by auto
  from push_step_other[OF st Cons.prems(2) ne] have x1: "x \<in> set (db_mutations w1)" .
  from Cons.prems st have f: "foldl (push_step e) (w1, idm1, s1, f1) ms = (w', idm', s', f')"
    by simp
  from Cons.IH[OF f x1 rest] show ?case .
qed

text \<open>The whole push, once the preflight has let it through.\<close>

lemma push_unfolded:
  assumes "getPendingMutations w \<noteq> []"
      and "remote e (requests w) (Select_head products) = Write_done None
           \<or> (\<exists>err. remote e (requests w) (Select_head products) = Write_done (Some err)
                     \<and> \<not> relation_not_found err)"
  shows "\<exists>w2 idm ms' w3 w4 idm' sc fc.
           foldl (premap_step e) (w\<lparr>requests := requests w @ [Select_head products]\<rparr>, [])
             (getPendingMutations w) = (w2, idm)
         \<and> rewrite_pass idm (getPendingMutations w) w2 = (ms', w3)
         \<and> foldl (push_step e) (w3, idm, 0, 0) ms' = (w4, idm', sc, fc)
         \<and> pushPendingMutations e w =
             (\<lparr>success = (fc = 0), idMappings = idm'\<rparr>, clearSyncedMutations w4)"
proof -
  let ?w1 = "w\<lparr>requests := requests w @ [Select_head products]\<rparr>"
  obtain w2 idm where a: "foldl (premap_step e) (?w1, []) (getPendingMutations w) = (w2, idm)"
    by (cases "foldl (premap_step e) (?w1, []) (getPendingMutations w)")
  obtain ms' w3 where b: "rewrite_pass idm (getPendingMutations w) w2 = (ms', w3)"
    by (cases "rewrite_pass idm (getPendingMutations w) w2")
  obtain w4 idm' sc fc where c: "foldl (push_step e) (w3, idm, 0, 0) ms' = (w4, idm', sc, fc)"
    by (cases "foldl (push_step e) (w3, idm, 0, 0) ms'") auto
  from assms a b c have
    "pushPendingMutations e w = (\<lparr>success = (fc = 0), idMappings = idm'\<rparr>, clearSyncedMutations w4)"
    by (auto simp: pushPendingMutations_def Let_def)
  with a b c show ?thesis by blast
qed


lemma push_keeps_failed:
  assumes "distinct (map m_id (db_mutations w))"
      and "x \<in> set (db_mutations w)" and "m_status x = failed"
  shows "x \<in> set (db_mutations (snd (pushPendingMutations e w)))"
proof -
  consider "getPendingMutations w = []"
    | "getPendingMutations w \<noteq> []"
      "\<not> (remote e (requests w) (Select_head products) = Write_done None
          \<or> (\<exists>err. remote e (requests w) (Select_head products) = Write_done (Some err)
                    \<and> \<not> relation_not_found err))"
    | "getPendingMutations w \<noteq> []"
      "remote e (requests w) (Select_head products) = Write_done None
       \<or> (\<exists>err. remote e (requests w) (Select_head products) = Write_done (Some err)
                 \<and> \<not> relation_not_found err)"
    by blast
  then show ?thesis
  proof cases
    case 1
    with assms(2) show ?thesis by (simp add: pushPendingMutations_def)
  next
    case 2
    with assms(2) show ?thesis
      by (auto simp: pushPendingMutations_def Let_def split: write_reply.splits option.splits)
  next
    case 3
    from push_unfolded[OF 3] obtain w2 idm ms' w3 w4 idm' sc fc where
      a: "foldl (premap_step e) (w\<lparr>requests := requests w @ [Select_head products]\<rparr>, [])
            (getPendingMutations w) = (w2, idm)"
      and b: "rewrite_pass idm (getPendingMutations w) w2 = (ms', w3)"
      and c: "foldl (push_step e) (w3, idm, 0, 0) ms' = (w4, idm', sc, fc)"
      and d: "pushPendingMutations e w =
                (\<lparr>success = (fc = 0), idMappings = idm'\<rparr>, clearSyncedMutations w4)"
      by blast
    from premap_world[OF a] have w2: "db_mutations w2 = db_mutations w" by auto
    from rewrite_pass_frame[OF b] w2 have w3: "map m_id ms' = map m_id (getPendingMutations w)"
      "db_mutations w3 = db_mutations w"
      by simp_all
    have "m_id x \<notin> set (map m_id (getPendingMutations w))"
    proof
      assume "m_id x \<in> set (map m_id (getPendingMutations w))"
      then obtain p where p: "p \<in> set (db_mutations w)" "m_status p = pending" "m_id p = m_id x"
        by (auto simp: getPending_set)
      from assms(1) have "inj_on m_id (set (db_mutations w))" by (simp add: distinct_map)
      with p assms(2) have "p = x" by (auto dest: inj_onD)
      with p assms(3) show False by simp
    qed
    with w3 have "m_id x \<notin> set (map m_id ms')" by simp
    from apply_pass_other[OF c _ this] assms(2) w3 have "x \<in> set (db_mutations w4)" by simp
    with assms(3) d show ?thesis by (simp add: clearSyncedMutations_def where_equals_delete_def)
  qed
qed

text \<open>
  A sales, notifications or settings insert of an offline-created record draws its UUID
  and records the mapping in its own turn, and the insert is the next request sent.
\<close>

lemma remote_write_requests: "requests (snd (remote_write e c w)) = requests w @ [c]"
  by (simp add: remote_write_def split: write_reply.split option.split)

lemma after_write_shape:
  assumes "\<And>w1. requests w1 = requests w @ [c] \<Longrightarrow>
             \<exists>w'. (rest w1 = Done w' idm \<or> (\<exists>err. rest w1 = Thrown err w' idm))
                  \<and> requests w' = requests w1"
  shows "\<exists>w'. (after_write e c w idm rest = Done w' idm
               \<or> (\<exists>err. after_write e c w idm rest = Thrown err w' idm))
             \<and> take (Suc (length (requests w))) (requests w') = requests w @ [c]"
proof (cases "remote_write e c w")
  case (Pair r w1)
  with remote_write_requests[of e c w] have q: "requests w1 = requests w @ [c]" by simp
  show ?thesis
  proof (cases r)
    case None
    from assms[OF q] obtain w' where
      "rest w1 = Done w' idm \<or> (\<exists>err. rest w1 = Thrown err w' idm)" "requests w' = requests w1"
      by blast
    with Pair None q show ?thesis by (intro exI[of _ w']) (auto simp: after_write_def)
  next
    case (Some err)
    with Pair q show ?thesis by (intro exI[of _ w1]) (simp add: after_write_def)
  qed
qed

lemma rekey_sale_shape:
  "\<exists>w'. (rekey_sale e r n w idm = Done w' idm \<or> (\<exists>err. rekey_sale e r n w idm = Thrown err w' idm))
        \<and> requests w' = requests w"
  by (cases "tbl_get ls_id (db_sales w) r";
      cases "tbl_add ls_id (tbl_delete ls_id (db_sales w) r)
               ((the (tbl_get ls_id (db_sales w) r))\<lparr>ls_id := n, ls_synced := True,
                  ls_lastSyncedAt := Some (clock e (clock_reads w))\<rparr>)")
     (simp_all add: rekey_sale_def read_clock_def)

lemma rekey_notification_shape:
  "\<exists>w'. (rekey_notification r n w idm = Done w' idm
          \<or> (\<exists>err. rekey_notification r n w idm = Thrown err w' idm))
        \<and> requests w' = requests w"
  by (cases "tbl_get ln_id (db_notifications w) r";
      cases "tbl_add ln_id (tbl_delete ln_id (db_notifications w) r)
               ((the (tbl_get ln_id (db_notifications w) r))\<lparr>ln_id := n, ln_synced := True\<rparr>)")
     (simp_all add: rekey_notification_def Let_def)

lemma rekey_setting_shape:
  "\<exists>w'. (rekey_setting r n w idm = Done w' idm
          \<or> (\<exists>err. rekey_setting r n w idm = Thrown err w' idm))
        \<and> requests w' = requests w"
  by (cases "tbl_get lst_id (db_settings w) r";
      cases "tbl_add lst_id (tbl_delete lst_id (db_settings w) r)
               ((the (tbl_get lst_id (db_settings w) r))\<lparr>lst_id := n, lst_synced := True\<rparr>)")
     (simp_all add: rekey_setting_def Let_def)

lemma insert_maps_in_apply_pass:
  assumes "m_operation m = INSERT"
      and "(m_table m = sales \<and> startsWith (m_recordId m) ''sale_'')
           \<or> (m_table m = notifications \<and> startsWith (m_recordId m) ''notif_'')
           \<or> (m_table m = settings \<and> startsWith (m_recordId m) ''setting_'')"
  shows "\<exists>w' idm'. (push_attempt e m w idm = Done w' idm'
                     \<or> (\<exists>err. push_attempt e m w idm = Thrown err w' idm'))
           \<and> map_of idm' (m_recordId m) = Some (uuidv4 e (uuid_draws w))
           \<and> take (Suc (length (requests w))) (requests w') =
               requests w @ [Insert_row (m_table m)
                 (local_payload (JStr (uuidv4 e (uuid_draws w))) (m_payload m))]"
proof -
  let ?u = "uuidv4 e (uuid_draws w)"
  let ?w0 = "w\<lparr>uuid_draws := Suc (uuid_draws w)\<rparr>"
  let ?idm = "AList.update (m_recordId m) ?u idm"
  let ?c = "Insert_row (m_table m) (local_payload (JStr ?u) (m_payload m))"
  have m: "map_of ?idm (m_recordId m) = Some ?u" by (simp add: update_conv')
  have q: "requests ?w0 = requests w" "length (requests ?w0) = length (requests w)" by simp_all
  from assms(2) consider
      "m_table m = sales" "startsWith (m_recordId m) ''sale_''"
    | "m_table m = notifications" "startsWith (m_recordId m) ''notif_''"
    | "m_table m = settings" "startsWith (m_recordId m) ''setting_''"
    by blast
  then show ?thesis
  proof cases
    case 1
    with assms(1) have p: "push_attempt e m w idm =
        after_write e ?c ?w0 ?idm (\<lambda>w1. rekey_sale e (m_recordId m) ?u w1 ?idm)"
      by (simp add: push_attempt_def push_sales_def draw_uuid_def Let_def)
    from after_write_shape[of ?w0 ?c "\<lambda>w1. rekey_sale e (m_recordId m) ?u w1 ?idm" ?idm e,
        OF rekey_sale_shape] q m p
    show ?thesis by auto
  next
    case 2
    with assms(1) have p: "push_attempt e m w idm =
        after_write e ?c ?w0 ?idm (\<lambda>w1. rekey_notification (m_recordId m) ?u w1 ?idm)"
      by (simp add: push_attempt_def push_notifications_def draw_uuid_def Let_def)
    from after_write_shape[of ?w0 ?c "\<lambda>w1. rekey_notification (m_recordId m) ?u w1 ?idm" ?idm e,
        OF rekey_notification_shape] q m p
    show ?thesis by auto
  next
    case 3
    with assms(1) have p: "push_attempt e m w idm =
        after_write e ?c ?w0 ?idm (\<lambda>w1. rekey_setting (m_recordId m) ?u w1 ?idm)"
      by (simp add: push_attempt_def push_settings_def draw_uuid_def Let_def)
    from after_write_shape[of ?w0 ?c "\<lambda>w1. rekey_setting (m_recordId m) ?u w1 ?idm" ?idm e,
        OF rekey_setting_shape] q m p
    show ?thesis by auto
  qed
qed

section \<open>Evaluating the examples\<close>

lemmas example_defs =
  example_env_def empty_world_def table_missing_def unprovisioned_env_def
  notification_insert_def notification_update_def reordered_queue_def offline_sale_insert_def
  offline_sale_queue_def offline_product_insert_def offline_product_update_def
  offline_product_queue_def hair_cream_def one_product_def negative_stock_def

lemma pending_reordered_queue:
  "getPendingMutations reordered_queue = [notification_update, notification_insert]"
  by (simp add: getPendingMutations_def where_equals_toArray_def reordered_queue_def
      empty_world_def notification_insert_def notification_update_def)

lemma pending_offline_product_queue:
  "getPendingMutations offline_product_queue = [offline_product_insert, offline_product_update]"
  by (simp add: getPendingMutations_def where_equals_toArray_def offline_product_queue_def
      empty_world_def offline_product_insert_def offline_product_update_def)

lemma pending_offline_sale_queue:
  "getPendingMutations offline_sale_queue = [offline_sale_insert]"
  by (simp add: getPendingMutations_def where_equals_toArray_def offline_sale_queue_def
      empty_world_def offline_sale_insert_def)

text \<open>
  On \<open>reordered_queue\<close> the push sends the update of the notification before the insert
  that creates it.
\<close>

lemma push_sends_update_before_insert:
  "requests (snd (pushPendingMutations example_env reordered_queue)) =
     [Select_head products,
      Update_row notifications (m_payload notification_update) (m_recordId notification_update),
      Insert_row notifications (m_payload notification_insert)]"
  by (simp add: pushPendingMutations_def pending_reordered_queue Let_def)
     (simp add: example_defs premap_step_def rewrite_mutation_def push_step_def push_attempt_def
      push_notifications_def after_write_def remote_write_def Let_def mapped_or_self_def
      idm_truthy_def markMutationSynced_def clearSyncedMutations_def)

section \<open>The claims\<close>




text \<open>
  Claim C2, as the code has it. The pre-pass (STEP 1) of a push, started after the
  preflight request, leaves in \<open>idMappings\<close> an entry for every pending products INSERT
  whose record id starts with \<open>local_\<close>, its value a UUID drawn during the pre-pass, and
  changes nothing in the world but the count of UUIDs drawn: no storage write, no
  request. For sales (\<open>sale_\<close>), notifications (\<open>notif_\<close>) and settings (\<open>setting_\<close>) the
  UUID is drawn and the entry made in the apply pass, in the turn of the insert itself,
  whose request is the next one sent.
\<close>

theorem premap_products_only:
  assumes "foldl (premap_step e) (w\<lparr>requests := requests w @ [Select_head products]\<rparr>, [])
             (getPendingMutations w) = (w', idm)"
  shows "(\<forall>m \<in> set (getPendingMutations w).
            m_table m = products \<and> m_operation m = INSERT \<and> startsWith (m_recordId m) ''local_''
            \<longrightarrow> (\<exists>k. uuid_draws w \<le> k \<and> k < uuid_draws w'
                      \<and> map_of idm (m_recordId m) = Some (uuidv4 e k)))
       \<and> w' = w\<lparr>requests := requests w @ [Select_head products], uuid_draws := uuid_draws w'\<rparr>
       \<and> (\<forall>m w1 idm1.
            m_operation m = INSERT
            \<and> ((m_table m = sales \<and> startsWith (m_recordId m) ''sale_'')
                \<or> (m_table m = notifications \<and> startsWith (m_recordId m) ''notif_'')
                \<or> (m_table m = settings \<and> startsWith (m_recordId m) ''setting_''))
            \<longrightarrow> (\<exists>w2 idm2.
                   (push_attempt e m w1 idm1 = Done w2 idm2
                    \<or> (\<exists>err. push_attempt e m w1 idm1 = Thrown err w2 idm2))
                   \<and> map_of idm2 (m_recordId m) = Some (uuidv4 e (uuid_draws w1))
                   \<and> take (Suc (length (requests w1))) (requests w2) =
                       requests w1 @ [Insert_row (m_table m)
                         (local_payload (JStr (uuidv4 e (uuid_draws w1))) (m_payload m))]))"
proof -
  let ?w1 = "w\<lparr>requests := requests w @ [Select_head products]\<rparr>"
  have a: "\<forall>m \<in> set (getPendingMutations w).
            m_table m = products \<and> m_operation m = INSERT \<and> startsWith (m_recordId m) ''local_''
            \<longrightarrow> (\<exists>k. uuid_draws w \<le> k \<and> k < uuid_draws w'
                      \<and> map_of idm (m_recordId m) = Some (uuidv4 e k))"
    using premap_entries[OF assms] by simp
  from premap_world[OF assms] obtain n where "w' = ?w1\<lparr>uuid_draws := n\<rparr>" by blast
  then have b: "w' = w\<lparr>requests := requests w @ [Select_head products], uuid_draws := uuid_draws w'\<rparr>"
    by simp
  from a b insert_maps_in_apply_pass[of _ e] show ?thesis by blast
qed

text \<open>
  Claim C2 as stated fails: \<open>offline_sale_insert\<close> is a pending sales INSERT whose record
  id starts with \<open>sale_\<close>, and after the pre-pass \<open>idMappings\<close> has no entry for it.
\<close>

theorem premap_misses_offline_sale:
  "offline_sale_insert \<in> set (getPendingMutations offline_sale_queue)
   \<and> m_table offline_sale_insert = sales \<and> m_operation offline_sale_insert = INSERT
   \<and> startsWith (m_recordId offline_sale_insert) ''sale_''
   \<and> map_of (snd (foldl (premap_step example_env)
         (offline_sale_queue\<lparr>requests := requests offline_sale_queue @ [Select_head products]\<rparr>, [])
         (getPendingMutations offline_sale_queue))) (m_recordId offline_sale_insert) = None"
  by (simp add: pending_offline_sale_queue premap_step_def) (simp add: offline_sale_insert_def)

theorem premap_products_only_witness:
  "foldl (premap_step example_env)
     (offline_product_queue\<lparr>requests := requests offline_product_queue @ [Select_head products]\<rparr>, [])
     (getPendingMutations offline_product_queue) =
     (offline_product_queue\<lparr>requests := [Select_head products], uuid_draws := 1\<rparr>,
      [(''local_1700000000000_h4c8r2e6a'', ''3f2b8c1e-7d4a-4e6f-9a1b-000000000000'')])
   \<and> (\<exists>k. uuid_draws offline_product_queue \<le> k \<and> k < 1
          \<and> map_of [(''local_1700000000000_h4c8r2e6a'', ''3f2b8c1e-7d4a-4e6f-9a1b-000000000000'')]
               (m_recordId offline_product_insert) = Some (uuidv4 example_env k))
   \<and> m_operation offline_sale_insert = INSERT \<and> m_table offline_sale_insert = sales
   \<and> startsWith (m_recordId offline_sale_insert) ''sale_''
   \<and> (\<exists>w2 idm2.
         (push_attempt example_env offline_sale_insert offline_sale_queue [] = Done w2 idm2
          \<or> (\<exists>err. push_attempt example_env offline_sale_insert offline_sale_queue [] =
                    Thrown err w2 idm2))
         \<and> map_of idm2 (m_recordId offline_sale_insert) =
             Some (uuidv4 example_env (uuid_draws offline_sale_queue)))"
proof -
  have h: "foldl (premap_step example_env)
     (offline_product_queue\<lparr>requests := requests offline_product_queue @ [Select_head products]\<rparr>, [])
     (getPendingMutations offline_product_queue) =
     (offline_product_queue\<lparr>requests := [Select_head products], uuid_draws := 1\<rparr>,
      [(''local_1700000000000_h4c8r2e6a'', ''3f2b8c1e-7d4a-4e6f-9a1b-000000000000'')])"
    by (simp add: pending_offline_product_queue premap_step_def draw_uuid_def)
       (simp add: example_defs decimal.simps[of 0])
  have i: "offline_product_insert \<in> set (getPendingMutations offline_product_queue)"
    "m_table offline_product_insert = products" "m_operation offline_product_insert = INSERT"
    "startsWith (m_recordId offline_product_insert) ''local_''"
    by (simp_all add: pending_offline_product_queue) (simp_all add: offline_product_insert_def)
  have s: "m_operation offline_sale_insert = INSERT" "m_table offline_sale_insert = sales"
    "startsWith (m_recordId offline_sale_insert) ''sale_''"
    by (simp_all add: offline_sale_insert_def)
  note t = premap_products_only[OF h]
  from t i have a: "\<exists>k. uuid_draws offline_product_queue \<le> k \<and> k < 1
          \<and> map_of [(''local_1700000000000_h4c8r2e6a'', ''3f2b8c1e-7d4a-4e6f-9a1b-000000000000'')]
               (m_recordId offline_product_insert) = Some (uuidv4 example_env k)"
    by auto
  from t have "\<forall>m w1 idm1.
            m_operation m = INSERT
            \<and> ((m_table m = sales \<and> startsWith (m_recordId m) ''sale_'')
                \<or> (m_table m = notifications \<and> startsWith (m_recordId m) ''notif_'')
                \<or> (m_table m = settings \<and> startsWith (m_recordId m) ''setting_''))
            \<longrightarrow> (\<exists>w2 idm2.
                   (push_attempt example_env m w1 idm1 = Done w2 idm2
                    \<or> (\<exists>err. push_attempt example_env m w1 idm1 = Thrown err w2 idm2))
                   \<and> map_of idm2 (m_recordId m) = Some (uuidv4 example_env (uuid_draws w1))
                   \<and> take (Suc (length (requests w1))) (requests w2) =
                       requests w1 @ [Insert_row (m_table m)
                         (local_payload (JStr (uuidv4 example_env (uuid_draws w1))) (m_payload m))])"
    by (rule conjunct2[THEN conjunct2])
  from this[rule_format, of offline_sale_insert offline_sale_queue "[]"] s
  have b: "\<exists>w2 idm2.
         (push_attempt example_env offline_sale_insert offline_sale_queue [] = Done w2 idm2
          \<or> (\<exists>err. push_attempt example_env offline_sale_insert offline_sale_queue [] =
                    Thrown err w2 idm2))
         \<and> map_of idm2 (m_recordId offline_sale_insert) =
             Some (uuidv4 example_env (uuid_draws offline_sale_queue))"
    by blast
  from h a s b show ?thesis by blast
qed

text \<open>
  Claim C3. A turn of the apply pass for an UPDATE or DELETE mutation whose record id
  carries the placeholder prefix of its collection (products \<open>local_\<close>, sales \<open>sale_\<close>,
  notifications \<open>notif_\<close>, settings \<open>setting_\<close>) does nothing but mark the mutation
  synced and count it as synced: no request is sent, and the queued mutation of that id
  has status \<open>synced\<close> afterwards.
\<close>

theorem push_skips_unresolved_placeholder:
  assumes "m_operation mutation = UPDATE \<or> m_operation mutation = DELETE"
      and "(m_table mutation = products \<and> startsWith (m_recordId mutation) ''local_'')
           \<or> (m_table mutation = sales \<and> startsWith (m_recordId mutation) ''sale_'')
           \<or> (m_table mutation = notifications \<and> startsWith (m_recordId mutation) ''notif_'')
           \<or> (m_table mutation = settings \<and> startsWith (m_recordId mutation) ''setting_'')"
  shows "push_step e (w, idm, syncedCount, failedCount) mutation =
           (markMutationSynced (m_id mutation) w, idm, syncedCount + 1, failedCount)
       \<and> requests (markMutationSynced (m_id mutation) w) = requests w
       \<and> (\<forall>x. tbl_get m_id (db_mutations w) (m_id mutation) = Some x \<longrightarrow>
             tbl_get m_id (db_mutations (markMutationSynced (m_id mutation) w)) (m_id mutation)
               = Some (x\<lparr>m_status := synced\<rparr>))"
proof -
  have "push_attempt e mutation w idm = Skipped (markMutationSynced (m_id mutation) w) idm"
    using assms
    by (auto simp: push_attempt_def push_products_def push_sales_def push_notifications_def
        push_settings_def)
  then show ?thesis
    by (simp add: push_step_def markMutationSynced_def tbl_get_update)
qed

theorem push_skips_unresolved_placeholder_witness:
  "m_operation offline_product_update = UPDATE
   \<and> m_table offline_product_update = products
   \<and> startsWith (m_recordId offline_product_update) ''local_''
   \<and> push_step example_env (offline_product_queue, [], 0, 0) offline_product_update =
       (markMutationSynced (m_id offline_product_update) offline_product_queue, [], 1, 0)
   \<and> requests (markMutationSynced (m_id offline_product_update) offline_product_queue) = []
   \<and> tbl_get m_id
       (db_mutations (markMutationSynced (m_id offline_product_update) offline_product_queue))
       (m_id offline_product_update) = Some (offline_product_update\<lparr>m_status := synced\<rparr>)"
proof -
  have h1: "m_operation offline_product_update = UPDATE \<or> m_operation offline_product_update = DELETE"
    by (simp add: offline_product_update_def)
  have h2: "(m_table offline_product_update = products
               \<and> startsWith (m_recordId offline_product_update) ''local_'')
           \<or> (m_table offline_product_update = sales
               \<and> startsWith (m_recordId offline_product_update) ''sale_'')
           \<or> (m_table offline_product_update = notifications
               \<and> startsWith (m_recordId offline_product_update) ''notif_'')
           \<or> (m_table offline_product_update = settings
               \<and> startsWith (m_recordId offline_product_update) ''setting_'')"
    by (simp add: offline_product_update_def)
  have g: "tbl_get m_id (db_mutations offline_product_queue) (m_id offline_product_update) =
           Some offline_product_update"
    by (simp add: tbl_get_def offline_product_queue_def empty_world_def)
       (simp add: offline_product_insert_def offline_product_update_def)
  have q: "requests offline_product_queue = []"
    by (simp add: offline_product_queue_def empty_world_def)
  have t: "m_operation offline_product_update = UPDATE" "m_table offline_product_update = products"
    "startsWith (m_recordId offline_product_update) ''local_''"
    by (simp_all add: offline_product_update_def)
  from push_skips_unresolved_placeholder[OF h1 h2, of example_env offline_product_queue "[]" 0 0]
    g q t
  show ?thesis by simp
qed

text \<open>
  Claim C4. For a mutation in the queue, \<open>markMutationFailed\<close> raises its retry count by
  one; the status is \<open>pending\<close> while the new count is below 5 and \<open>failed\<close> once it has
  reached 5. A failed mutation is not among the mutations \<open>getPendingMutations\<close> returns,
  and (the ids of the queue being distinct, as a primary key is) a push pass leaves it in
  the queue as it is; \<open>retryFailedMutation\<close> makes it pending, and returned, again.
\<close>

theorem markMutationFailed_retry_ceiling:
  assumes "tbl_get m_id (db_mutations w) mutationId = Some m"
  shows "(\<exists>m'. tbl_get m_id (db_mutations (markMutationFailed mutationId err w)) mutationId = Some m'
            \<and> m_retries m' = m_retries m + 1
            \<and> (m_retries m' < 5 \<longrightarrow> m_status m' = pending)
            \<and> (5 \<le> m_retries m' \<longrightarrow> m_status m' = failed
                 \<and> m' \<notin> set (getPendingMutations (markMutationFailed mutationId err w))))
       \<and> (\<forall>x \<in> set (db_mutations w). m_status x = failed \<longrightarrow>
             x \<notin> set (getPendingMutations w)
             \<and> (distinct (map m_id (db_mutations w)) \<longrightarrow>
                  x \<in> set (db_mutations (snd (pushPendingMutations e w)))))
       \<and> (\<exists>m''. tbl_get m_id (db_mutations (retryFailedMutation mutationId w)) mutationId = Some m''
             \<and> m_status m'' = pending
             \<and> m'' \<in> set (getPendingMutations (retryFailedMutation mutationId w)))"
proof -
  let ?w' = "markMutationFailed mutationId err w"
  let ?m' = "m\<lparr>m_status := (if 5 \<le> m_retries m + 1 then failed else pending),
                 m_retries := m_retries m + 1, m_lastError := Some err\<rparr>"
  have g: "tbl_get m_id (db_mutations ?w') mutationId = Some ?m'"
    using assms by (rule get_markMutationFailed)
  have a: "5 \<le> m_retries ?m' \<longrightarrow> ?m' \<notin> set (getPendingMutations ?w')"
    by (auto dest: getPending_status)
  have b: "\<forall>x \<in> set (db_mutations w). m_status x = failed \<longrightarrow>
             x \<notin> set (getPendingMutations w)
             \<and> (distinct (map m_id (db_mutations w)) \<longrightarrow>
                  x \<in> set (db_mutations (snd (pushPendingMutations e w))))"
    by (auto dest: getPending_status intro: push_keeps_failed)
  let ?r = "retryFailedMutation mutationId w"
  let ?m2 = "m\<lparr>m_status := pending, m_retries := 0, m_lastError := None\<rparr>"
  have r: "tbl_get m_id (db_mutations ?r) mutationId = Some ?m2"
    using assms by (rule get_retryFailedMutation)
  then have "?m2 \<in> set (getPendingMutations ?r)"
    by (auto simp: getPending_set dest: tbl_get_mem)
  with r have c: "\<exists>m''. tbl_get m_id (db_mutations ?r) mutationId = Some m''
             \<and> m_status m'' = pending \<and> m'' \<in> set (getPendingMutations ?r)"
    by (intro exI[of _ ?m2]) simp
  from g a have d: "\<exists>m'. tbl_get m_id (db_mutations ?w') mutationId = Some m'
            \<and> m_retries m' = m_retries m + 1
            \<and> (m_retries m' < 5 \<longrightarrow> m_status m' = pending)
            \<and> (5 \<le> m_retries m' \<longrightarrow> m_status m' = failed
                 \<and> m' \<notin> set (getPendingMutations ?w'))"
    by (intro exI[of _ ?m']) simp
  from d b c show ?thesis by blast
qed

theorem markMutationFailed_retry_ceiling_witness:
  "tbl_get m_id (db_mutations offline_product_queue) (m_id offline_product_update) =
     Some offline_product_update
   \<and> m_retries offline_product_update = 4
   \<and> (\<exists>m'. tbl_get m_id
             (db_mutations (markMutationFailed (m_id offline_product_update)
                ''TypeError: Failed to fetch'' offline_product_queue))
             (m_id offline_product_update) = Some m'
          \<and> m_retries m' = 5 \<and> m_status m' = failed
          \<and> m' \<notin> set (getPendingMutations (markMutationFailed (m_id offline_product_update)
                ''TypeError: Failed to fetch'' offline_product_queue)))
   \<and> tbl_get m_id (db_mutations offline_product_queue) (m_id offline_product_insert) =
     Some offline_product_insert
   \<and> m_retries offline_product_insert = 0
   \<and> (\<exists>m'. tbl_get m_id
             (db_mutations (markMutationFailed (m_id offline_product_insert)
                ''TypeError: Failed to fetch'' offline_product_queue))
             (m_id offline_product_insert) = Some m'
          \<and> m_retries m' = 1 \<and> m_status m' = pending)"
proof -
  have h: "tbl_get m_id (db_mutations offline_product_queue) (m_id offline_product_update) =
           Some offline_product_update"
    by (simp add: tbl_get_def offline_product_queue_def empty_world_def)
       (simp add: offline_product_insert_def offline_product_update_def)
  have r: "m_retries offline_product_update = 4"
    by (simp add: offline_product_update_def)
  have h': "tbl_get m_id (db_mutations offline_product_queue) (m_id offline_product_insert) =
           Some offline_product_insert"
    by (simp add: tbl_get_def offline_product_queue_def empty_world_def)
  have r': "m_retries offline_product_insert = 0"
    by (simp add: offline_product_insert_def)
  from markMutationFailed_retry_ceiling[OF h, of "''TypeError: Failed to fetch''" example_env] r
  have a: "\<exists>m'. tbl_get m_id
             (db_mutations (markMutationFailed (m_id offline_product_update)
                ''TypeError: Failed to fetch'' offline_product_queue))
             (m_id offline_product_update) = Some m'
          \<and> m_retries m' = 5 \<and> m_status m' = failed
          \<and> m' \<notin> set (getPendingMutations (markMutationFailed (m_id offline_product_update)
                ''TypeError: Failed to fetch'' offline_product_queue))"
    by auto
  from markMutationFailed_retry_ceiling[OF h', of "''TypeError: Failed to fetch''" example_env] r'
  have b: "\<exists>m'. tbl_get m_id
             (db_mutations (markMutationFailed (m_id offline_product_insert)
                ''TypeError: Failed to fetch'' offline_product_queue))
             (m_id offline_product_insert) = Some m'
          \<and> m_retries m' = 1 \<and> m_status m' = pending"
    by auto
  from h r a h' r' b show ?thesis by blast
qed

text \<open>
  Claim C5. When there is something to push, so that the preflight check is made, and the
  check throws or reports the relation-not-found error, \<open>pushPendingMutations\<close> returns
  \<open>success = false\<close> with an empty \<open>idMappings\<close>, and the world is as before but for the
  one head request: every queued mutation is unchanged and no failure is recorded.
\<close>

theorem push_preflight_abort:
  assumes "getPendingMutations w \<noteq> []"
      and "(\<exists>msg. remote e (requests w) (Select_head products) = Write_threw msg)
           \<or> (\<exists>err. remote e (requests w) (Select_head products) = Write_done (Some err)
                    \<and> relation_not_found err)"
  shows "pushPendingMutations e w =
           (\<lparr>success = False, idMappings = []\<rparr>,
            w\<lparr>requests := requests w @ [Select_head products]\<rparr>)"
  using assms by (auto simp: pushPendingMutations_def Let_def)

theorem push_preflight_abort_witness:
  "getPendingMutations offline_product_queue \<noteq> []
   \<and> remote unprovisioned_env (requests offline_product_queue) (Select_head products) =
       Write_done (Some table_missing)
   \<and> relation_not_found table_missing
   \<and> pushPendingMutations unprovisioned_env offline_product_queue =
       (\<lparr>success = False, idMappings = []\<rparr>,
        offline_product_queue\<lparr>requests := [Select_head products]\<rparr>)"
proof -
  have h1: "getPendingMutations offline_product_queue \<noteq> []"
    by (simp add: pending_offline_product_queue)
  have r: "remote unprovisioned_env (requests offline_product_queue) (Select_head products) =
           Write_done (Some table_missing)"
    by (simp add: unprovisioned_env_def)
  have n: "relation_not_found table_missing"
    by (simp add: relation_not_found_def table_missing_def)
  have q: "requests offline_product_queue = []"
    by (simp add: offline_product_queue_def empty_world_def)
  from r n have h2:
    "(\<exists>msg. remote unprovisioned_env (requests offline_product_queue) (Select_head products) =
             Write_threw msg)
     \<or> (\<exists>err. remote unprovisioned_env (requests offline_product_queue) (Select_head products) =
               Write_done (Some err) \<and> relation_not_found err)"
    by blast
  from push_preflight_abort[OF h1 h2] h1 r n q show ?thesis by simp
qed




text \<open>
  Claim C7. When the query of a remote collection returns the relation-not-found error
  (code \<open>PGRST205\<close>, or a message containing \<open>Could not find the table\<close>), each of the four
  pull functions returns true and leaves the world as it was but for the request sent:
  nothing is merged, no local record is changed or deleted, no synced flag is cleared.
\<close>

theorem pull_relation_not_found:
  assumes "relation_not_found error"
  shows "syncProductsFromSupabase clk (Select_error error) w =
           (True, w\<lparr>requests := requests w @ [Select_all products]\<rparr>)
       \<and> syncSalesFromSupabase clk (Select_error error) w =
           (True, w\<lparr>requests := requests w @ [Select_all sales]\<rparr>)
       \<and> syncNotificationsFromSupabase (Select_error error) w =
           (True, w\<lparr>requests := requests w @ [Select_all notifications]\<rparr>)
       \<and> syncSettingsFromSupabase (Select_error error) w =
           (True, w\<lparr>requests := requests w @ [Select_all settings]\<rparr>)"
  using assms
  by (simp add: syncProductsFromSupabase_def syncSalesFromSupabase_def
      syncNotificationsFromSupabase_def syncSettingsFromSupabase_def)

theorem pull_relation_not_found_witness:
  "relation_not_found table_missing
   \<and> relation_not_found
       \<lparr>err_code = None, err_message = Some ''Could not find the table public.sales'',
        err_text = ''[object Object]''\<rparr>
   \<and> syncProductsFromSupabase (clock example_env) (Select_error table_missing) empty_world =
       (True, empty_world\<lparr>requests := [Select_all products]\<rparr>)
   \<and> syncSalesFromSupabase (clock example_env)
       (Select_error \<lparr>err_code = None, err_message = Some ''Could not find the table public.sales'',
                      err_text = ''[object Object]''\<rparr>) empty_world =
       (True, empty_world\<lparr>requests := [Select_all sales]\<rparr>)"
proof -
  have h1: "relation_not_found table_missing"
    by (simp add: relation_not_found_def table_missing_def)
  have h2: "relation_not_found
       \<lparr>err_code = None, err_message = Some ''Could not find the table public.sales'',
        err_text = ''[object Object]''\<rparr>"
    by (simp add: relation_not_found_def)
  have q: "requests empty_world = []" by (simp add: empty_world_def)
  from pull_relation_not_found[OF h1, of "clock example_env" empty_world]
    pull_relation_not_found[OF h2, of "clock example_env" empty_world] h1 h2 q
  show ?thesis by simp
qed

text \<open>
  Claim C8. A call of \<open>performFullSync\<close> made while a sync is in progress, or less than
  \<open>SYNC_DEBOUNCE_MS\<close> after the last sync attempt, returns false and changes neither the
  module state nor the world: no pull, no push, no write. So when a first trigger at
  \<open>t1\<close> is let through and runs the one cycle, a second trigger at \<open>t2\<close> less than
  \<open>SYNC_DEBOUNCE_MS\<close> later is dropped, whether it comes while the first is still running
  or after it has ended.
\<close>

theorem performFullSync_dropped:
  "(syncInProgress ss \<or> now - lastSyncAttempt ss < SYNC_DEBOUNCE_MS \<longrightarrow>
      performFullSync e now (ss, w) = (False, ss, w))
   \<and> (\<not> syncInProgress ss \<and> SYNC_DEBOUNCE_MS \<le> t1 - lastSyncAttempt ss
       \<and> t2 - t1 < SYNC_DEBOUNCE_MS \<longrightarrow>
        (case performFullSync e t1 (ss, w) of
           (r1, ss1, w1) \<Rightarrow>
             r1 = fst (full_sync_body e w) \<and> w1 = snd (full_sync_body e w)
             \<and> ss1 = ss\<lparr>syncInProgress := False, lastSyncAttempt := t1\<rparr>
             \<and> performFullSync e' t2 (ss1, w1) = (False, ss1, w1)
             \<and> performFullSync e' t2 (ss\<lparr>syncInProgress := True, lastSyncAttempt := t1\<rparr>, w2)
                 = (False, ss\<lparr>syncInProgress := True, lastSyncAttempt := t1\<rparr>, w2)))"
  by (auto simp: performFullSync_def Let_def split: prod.splits)

theorem performFullSync_dropped_witness:
  "performFullSync example_env 1700000000400
     (\<lparr>syncInProgress = True, lastSyncAttempt = 1700000000000\<rparr>, offline_product_queue)
     = (False, \<lparr>syncInProgress = True, lastSyncAttempt = 1700000000000\<rparr>, offline_product_queue)
   \<and> performFullSync example_env 1700000000400
       (snd (performFullSync example_env 1700000000000
               (\<lparr>syncInProgress = False, lastSyncAttempt = 0\<rparr>, offline_product_queue)))
     = (False, snd (performFullSync example_env 1700000000000
                      (\<lparr>syncInProgress = False, lastSyncAttempt = 0\<rparr>, offline_product_queue)))"
proof -
  have a: "performFullSync example_env 1700000000400
     (\<lparr>syncInProgress = True, lastSyncAttempt = 1700000000000\<rparr>, offline_product_queue)
     = (False, \<lparr>syncInProgress = True, lastSyncAttempt = 1700000000000\<rparr>, offline_product_queue)"
    using performFullSync_dropped[of "\<lparr>syncInProgress = True, lastSyncAttempt = 1700000000000\<rparr>"
        1700000000400 example_env offline_product_queue]
    by simp
  have b: "\<not> syncInProgress \<lparr>syncInProgress = False, lastSyncAttempt = 0\<rparr>
       \<and> SYNC_DEBOUNCE_MS \<le> 1700000000000 - lastSyncAttempt \<lparr>syncInProgress = False, lastSyncAttempt = 0\<rparr>
       \<and> (1700000000400::int) - 1700000000000 < SYNC_DEBOUNCE_MS"
    by (simp add: SYNC_DEBOUNCE_MS_def)
  obtain r1 ss1 w1 where p: "performFullSync example_env 1700000000000
      (\<lparr>syncInProgress = False, lastSyncAttempt = 0\<rparr>, offline_product_queue) = (r1, ss1, w1)"
    by (metis prod_cases3)
  have "performFullSync example_env 1700000000400 (ss1, w1) = (False, ss1, w1)"
    using performFullSync_dropped[where ss="\<lparr>syncInProgress = False, lastSyncAttempt = 0\<rparr>"
      and now=0 and e=example_env and w=offline_product_queue and ?t1.0=1700000000000
      and ?t2.0=1700000000400 and e'=example_env and ?w2.0=empty_world] b
    unfolding p by (simp only: prod.case) blast
  with p have "performFullSync example_env 1700000000400
       (snd (performFullSync example_env 1700000000000
               (\<lparr>syncInProgress = False, lastSyncAttempt = 0\<rparr>, offline_product_queue)))
     = (False, snd (performFullSync example_env 1700000000000
                      (\<lparr>syncInProgress = False, lastSyncAttempt = 0\<rparr>, offline_product_queue)))"
    by simp
  with a show ?thesis by simp
qed



text \<open>
  Outside the data model: \<open>getStockStatus\<close> has no guard for a negative quantity, and
  labels it low stock where Sales.tsx treats a quantity of 0 or less as out of stock.
\<close>

lemma getStockStatus_negative_quantity:
  "label (getStockStatus negative_stock) = ''Low Stock'' \<and> prod_quantity negative_stock < 0"
  by (simp add: getStockStatus_def negative_stock_def hair_cream_def)

text \<open>
  Claim C10. For a mutation in the queue, \<open>retryFailedMutation\<close> sets its status to
  \<open>pending\<close>, its retry count to 0 and clears its last error, so that the next four
  failures leave it pending and the fifth makes it failed; it changes no mutation of
  another id, neither the order nor the ids of the queue, and nothing else in the world.
\<close>

theorem retryFailedMutation_fresh_budget:
  assumes "tbl_get m_id (db_mutations w) mutationId = Some m"
  shows "tbl_get m_id (db_mutations (retryFailedMutation mutationId w)) mutationId =
           Some (m\<lparr>m_status := pending, m_retries := 0, m_lastError := None\<rparr>)
       \<and> (\<forall>n. tbl_get m_id (db_mutations ((markMutationFailed mutationId err ^^ n)
                   (retryFailedMutation mutationId w))) mutationId =
              Some (m\<lparr>m_status := (if n < 5 then pending else failed), m_retries := int n,
                      m_lastError := (if n = 0 then None else Some err)\<rparr>))
       \<and> (\<forall>k. k \<noteq> mutationId \<longrightarrow>
              tbl_get m_id (db_mutations (retryFailedMutation mutationId w)) k =
              tbl_get m_id (db_mutations w) k)
       \<and> filter (\<lambda>x. m_id x \<noteq> mutationId) (db_mutations (retryFailedMutation mutationId w)) =
           filter (\<lambda>x. m_id x \<noteq> mutationId) (db_mutations w)
       \<and> map m_id (db_mutations (retryFailedMutation mutationId w)) = map m_id (db_mutations w)
       \<and> retryFailedMutation mutationId w =
           w\<lparr>db_mutations := db_mutations (retryFailedMutation mutationId w)\<rparr>"
proof -
  let ?r = "retryFailedMutation mutationId w"
  let ?m2 = "m\<lparr>m_status := pending, m_retries := 0, m_lastError := None\<rparr>"
  have r: "tbl_get m_id (db_mutations ?r) mutationId = Some ?m2"
    using assms by (rule get_retryFailedMutation)
  have n: "\<forall>n. tbl_get m_id (db_mutations ((markMutationFailed mutationId err ^^ n) ?r)) mutationId =
              Some (m\<lparr>m_status := (if n < 5 then pending else failed), m_retries := int n,
                      m_lastError := (if n = 0 then None else Some err)\<rparr>)"
    using funpow_markMutationFailed[OF r, where err=err] by simp
  have k: "\<forall>k. k \<noteq> mutationId \<longrightarrow>
             tbl_get m_id (db_mutations ?r) k = tbl_get m_id (db_mutations w) k"
    by (simp add: retryFailedMutation_def tbl_get_update)
  have f: "filter (\<lambda>x. m_id x \<noteq> mutationId) (db_mutations ?r) =
           filter (\<lambda>x. m_id x \<noteq> mutationId) (db_mutations w)"
    by (simp add: retryFailedMutation_def filter_tbl_update)
  have i: "map m_id (db_mutations ?r) = map m_id (db_mutations w)"
    by (simp add: retryFailedMutation_def tbl_update_def comp_def)
  have e: "?r = w\<lparr>db_mutations := db_mutations ?r\<rparr>"
    by (simp add: retryFailedMutation_def)
  from r n k f i e show ?thesis by blast
qed

theorem retryFailedMutation_fresh_budget_witness:
  "tbl_get m_id (db_mutations offline_product_queue) (m_id offline_product_update) =
     Some offline_product_update
   \<and> tbl_get m_id
       (db_mutations (retryFailedMutation (m_id offline_product_update) offline_product_queue))
       (m_id offline_product_update) =
       Some (offline_product_update\<lparr>m_status := pending, m_retries := 0, m_lastError := None\<rparr>)
   \<and> tbl_get m_id
       (db_mutations (retryFailedMutation (m_id offline_product_update) offline_product_queue))
       (m_id offline_product_insert) = Some offline_product_insert"
proof -
  have h: "tbl_get m_id (db_mutations offline_product_queue) (m_id offline_product_update) =
           Some offline_product_update"
    by (simp add: tbl_get_def offline_product_queue_def empty_world_def)
       (simp add: offline_product_insert_def offline_product_update_def)
  have i: "tbl_get m_id (db_mutations offline_product_queue) (m_id offline_product_insert) =
           Some offline_product_insert"
    by (simp add: tbl_get_def offline_product_queue_def empty_world_def)
  have d: "m_id offline_product_insert \<noteq> m_id offline_product_update"
    by (simp add: offline_product_insert_def offline_product_update_def)
  from retryFailedMutation_fresh_budget[OF h, of "''x''"] h i d show ?thesis by simp
qed

end
